theory Spec2Isabelle
  imports Complex_Main "HOL-Library.AList" "HOL-Library.Sublist"
begin

section \<open>Python values used by both modules\<close>

text \<open>
  The two modules embedded here are \<^verbatim>\<open>src/utils/spaced_repetition.py\<close> (class
  \<^verbatim>\<open>SpacedRepetition\<close>) and \<^verbatim>\<open>src/utils/quiz_manager.py\<close> (class
  \<^verbatim>\<open>QuizManager\<close>).

  Conventions of the embedding.
  \<^item> A Python \<^verbatim>\<open>float\<close> is the real number it denotes and a Python \<^verbatim>\<open>int\<close> is an
    \<^typ>\<open>int\<close>. In \<^verbatim>\<open>calculate_next_review\<close>, whose ease factor reaches \<^verbatim>\<open>math.ceil\<close>
    through a product, every float operation is the IEEE 754 binary64 operation: the
    exact result rounded by \<open>float64\<close> (below). Elsewhere (priorities, difficulty
    levels, averages) float arithmetic is idealised as exact real arithmetic and the
    decimal constants of the source as the exact decimals.
  \<^item> A \<^verbatim>\<open>datetime\<close> is a real number of days since \<^verbatim>\<open>datetime.min\<close>; every
    \<^verbatim>\<open>datetime.now()\<close> of a call is one parameter \<open>now\<close> of the model (the source reads
    the clock several times within one call, microseconds apart). ISO strings stored in a
    record are taken as the \<^verbatim>\<open>datetime\<close> they parse to.
  \<^item> Every exception the modelled code can raise is a value of \<open>py_error\<close>; a fallible
    function returns \<open>py_error + 'a\<close> with \<open>Inl\<close> the exception.
\<close>

datatype py_error = KeyError | ValueError | IndexError | OverflowError | ZeroDivisionError | TypeError

text \<open>\<^verbatim>\<open>xs[i]\<close> on a list of length \<open>n\<close>: the position read, or \<open>None\<close> for IndexError.\<close>

definition py_index :: "nat \<Rightarrow> int \<Rightarrow> nat option" where
  "py_index n i =
     (if 0 \<le> i \<and> i < int n then Some (nat i)
      else if - int n \<le> i \<and> i < 0 then Some (nat (int n + i))
      else None)"

text \<open>\<^verbatim>\<open>xs[:m]\<close>: a negative \<open>m\<close> counts from the end.\<close>

definition py_slice_to :: "'a list \<Rightarrow> int \<Rightarrow> 'a list" where
  "py_slice_to xs m = (if 0 \<le> m then take (nat m) xs else take (length xs - nat (- m)) xs)"

text \<open>\<^verbatim>\<open>d.get(key, default)\<close> and \<^verbatim>\<open>d[key]\<close> on a key that may be absent.\<close>

definition dict_get :: "'a option \<Rightarrow> 'a \<Rightarrow> 'a" where
  "dict_get v d = (case v of None \<Rightarrow> d | Some x \<Rightarrow> x)"

definition dict_item :: "'a option \<Rightarrow> py_error + 'a" where
  "dict_item v = (case v of None \<Rightarrow> Inl KeyError | Some x \<Rightarrow> Inr x)"

type_synonym datetime = real

text \<open>
  \<^verbatim>\<open>datetime.max\<close> is the last microsecond of year 9999, day 3652059 after
  \<^verbatim>\<open>datetime.min\<close>; \<^verbatim>\<open>timedelta(days=d)\<close> raises OverflowError outside
  \<open>\<plusminus>999999999\<close> days and \<^verbatim>\<open>datetime + timedelta\<close> raises it outside the calendar.
\<close>

definition datetime_end :: real where
  "datetime_end = 3652059"

definition timedelta_days :: "real \<Rightarrow> py_error + real" where
  "timedelta_days d = (if - 999999999 \<le> d \<and> d < 1000000000 then Inr d else Inl OverflowError)"

definition datetime_add :: "datetime \<Rightarrow> real \<Rightarrow> py_error + datetime" where
  "datetime_add now d =
     (case timedelta_days d of
        Inl e \<Rightarrow> Inl e
      | Inr td \<Rightarrow> if 0 \<le> now + td \<and> now + td < datetime_end then Inr (now + td) else Inl OverflowError)"

subsection \<open>Double-precision arithmetic\<close>

text \<open>
  A Python \<^verbatim>\<open>float\<close> is an IEEE 754 binary64 number, and \<^verbatim>\<open>+\<close>, \<^verbatim>\<open>-\<close>, \<^verbatim>\<open>*\<close> on
  floats, the reading of a decimal literal and the conversion of an \<^verbatim>\<open>int\<close> operand
  all return the exact result rounded to the nearest double, ties to the even
  significand. \<open>float64 x\<close> is that rounding of the real number \<open>x\<close>: with \<open>e\<close> the
  exponent of \<open>x\<close> (\<open>2 ^ e \<le> |x| < 2 ^ (e + 1)\<close>, and \<open>e = -1022\<close> for the subnormal
  numbers below), the doubles around \<open>x\<close> are the multiples of \<open>2 ^ (e - 52)\<close>. The
  exponent is not bounded above: a result of magnitude \<open>2 ^ 1024\<close> or more stands for
  \<^verbatim>\<open>inf\<close> or \<^verbatim>\<open>-inf\<close>.
\<close>

definition round_half_even :: "real \<Rightarrow> int" where
  "round_half_even x =
     (let f = \<lfloor>x\<rfloor> in
      if x - real_of_int f < 1 / 2 then f
      else if 1 / 2 < x - real_of_int f then f + 1
      else if even f then f else f + 1)"

definition float64 :: "real \<Rightarrow> real" where
  "float64 x =
     (if x = 0 then 0
      else (let e = max \<lfloor>log 2 \<bar>x\<bar>\<rfloor> (- 1022);
                ulp = 2 powr real_of_int (e - 52)
            in real_of_int (round_half_even (x / ulp)) * ulp))"

text \<open>
  An \<^verbatim>\<open>int\<close> operand of a float operation is converted first; the conversion raises
  OverflowError when the \<^verbatim>\<open>int\<close> is too large for a double. A float operand is
  finite and the conversion leaves it as it is.
\<close>

definition float_of :: "real \<Rightarrow> py_error + real" where
  "float_of x = (if \<bar>float64 x\<bar> < 2 ^ 1024 then Inr (float64 x) else Inl OverflowError)"

text \<open>\<^verbatim>\<open>math.ceil(x)\<close> on a float: an \<^verbatim>\<open>int\<close>, or OverflowError on an infinity.\<close>

definition math_ceil :: "real \<Rightarrow> py_error + int" where
  "math_ceil x = (if \<bar>x\<bar> < 2 ^ 1024 then Inr \<lceil>x\<rceil> else Inl OverflowError)"

section \<open>Spaced repetition (\<^verbatim>\<open>spaced_repetition.py\<close>)\<close>

datatype ItemType = VOCABULARY | IDIOM | GRAMMAR | QUIZ_QUESTION | GENERAL_KNOWLEDGE | CURRENT_AFFAIRS

datatype LearningStage = NEW | LEARNING | REVIEW | MASTERED

fun ItemType_value :: "ItemType \<Rightarrow> string" where
  "ItemType_value VOCABULARY = ''vocabulary''"
| "ItemType_value IDIOM = ''idiom''"
| "ItemType_value GRAMMAR = ''grammar''"
| "ItemType_value QUIZ_QUESTION = ''quiz_question''"
| "ItemType_value GENERAL_KNOWLEDGE = ''general_knowledge''"
| "ItemType_value CURRENT_AFFAIRS = ''current_affairs''"

fun LearningStage_value :: "LearningStage \<Rightarrow> string" where
  "LearningStage_value NEW = ''new''"
| "LearningStage_value LEARNING = ''learning''"
| "LearningStage_value REVIEW = ''review''"
| "LearningStage_value MASTERED = ''mastered''"

text \<open>\<^verbatim>\<open>ItemType(s)\<close> and \<^verbatim>\<open>LearningStage(s)\<close>: ValueError on a string that is no member's value.\<close>

definition ItemType_of :: "string \<Rightarrow> py_error + ItemType" where
  "ItemType_of s =
     (if s = ''vocabulary'' then Inr VOCABULARY
      else if s = ''idiom'' then Inr IDIOM
      else if s = ''grammar'' then Inr GRAMMAR
      else if s = ''quiz_question'' then Inr QUIZ_QUESTION
      else if s = ''general_knowledge'' then Inr GENERAL_KNOWLEDGE
      else if s = ''current_affairs'' then Inr CURRENT_AFFAIRS
      else Inl ValueError)"

definition LearningStage_of :: "string \<Rightarrow> py_error + LearningStage" where
  "LearningStage_of s =
     (if s = ''new'' then Inr NEW
      else if s = ''learning'' then Inr LEARNING
      else if s = ''review'' then Inr REVIEW
      else if s = ''mastered'' then Inr MASTERED
      else Inl ValueError)"

subsection \<open>The parameters set by \<^verbatim>\<open>__init__\<close>\<close>

text \<open>
  The literal \<^verbatim>\<open>2.5\<close> is a double; \<^verbatim>\<open>1.3\<close> is not, and the attributes
  \<^verbatim>\<open>ease_factor_min\<close> and \<^verbatim>\<open>easy_bonus\<close> hold the double nearest to it.
\<close>

definition ease_factor_default :: real where
  "ease_factor_default = 2.5"

definition ease_factor_min :: real where
  "ease_factor_min = float64 1.3"

definition grade_threshold :: int where
  "grade_threshold = 3"

definition mastery_threshold :: real where
  "mastery_threshold = 21"

definition max_daily_reviews :: int where
  "max_daily_reviews = 50"

definition learning_steps :: "real list" where
  "learning_steps = [1, 10]"

definition graduation_interval :: real where
  "graduation_interval = 1"

definition easy_bonus :: real where
  "easy_bonus = float64 1.3"

subsection \<open>\<^verbatim>\<open>calculate_next_review\<close>\<close>

text \<open>The dict the function returns.\<close>

record next_review =
  nr_next_interval :: real
  nr_ease_factor :: real
  nr_repetitions :: int
  nr_stage :: LearningStage
  nr_next_review_date :: datetime

text \<open>
  The branch structure of the source, in its order: fail first, then the stage. Each
  branch yields \<open>(new_interval, new_ease_factor, new_repetitions, new_stage)\<close>.

  The arguments \<open>interval\<close> and \<open>ease_factor\<close> are given by the real number they
  denote, \<open>ease_factor\<close> a float (as \<^verbatim>\<open>initialize_item\<close> and every update store it)
  and \<open>interval\<close> a float or an \<^verbatim>\<open>int\<close>; \<open>float64\<close> of a double is the double itself,
  and of a decimal literal the double Python reads it as. \<open>grade\<close> and \<open>repetitions\<close>
  are \<^verbatim>\<open>int\<close>s. What can raise: the list read
  \<^verbatim>\<open>learning_steps[new_repetitions - 1]\<close> in the learning branch; in the review branch
  the conversion of the \<^verbatim>\<open>int\<close> operands \<open>interval\<close> and \<open>5 - grade\<close> and \<^verbatim>\<open>math.ceil\<close> of
  an infinite product; and the date arithmetic of \<^verbatim>\<open>next_review_date\<close>.

  The learning steps \<^verbatim>\<open>learning_steps[k] / (24 * 60)\<close> are kept as the exact
  fractions of a day (\<^verbatim>\<open>timedelta\<close> rounds them to whole microseconds, one and ten
  minutes); they reach no product.
\<close>

definition calculate_next_review ::
  "datetime \<Rightarrow> real \<Rightarrow> real \<Rightarrow> int \<Rightarrow> int \<Rightarrow> LearningStage \<Rightarrow> py_error + next_review" where
  "calculate_next_review now interval ease_factor grade repetitions item_stage =
     (let branch =
        (if grade < grade_threshold then
           (if item_stage = NEW
            then Inr (learning_steps ! 0 / (24 * 60),
                      max (float64 (float64 ease_factor - float64 0.2)) ease_factor_min, 0, LEARNING)
            else Inr (1, max (float64 (float64 ease_factor - float64 0.2)) ease_factor_min, 0, LEARNING))
         else
           (let new_repetitions = repetitions + 1 in
            if item_stage = NEW then
              Inr (learning_steps ! 0 / (24 * 60), ease_factor, new_repetitions, LEARNING)
            else if item_stage = LEARNING then
              (if new_repetitions \<ge> int (length learning_steps) then
                 Inr (graduation_interval, ease_factor, new_repetitions, REVIEW)
               else
                 (case py_index (length learning_steps) (new_repetitions - 1) of
                    None \<Rightarrow> Inl IndexError
                  | Some k \<Rightarrow> Inr (learning_steps ! k / (24 * 60), ease_factor, new_repetitions, LEARNING)))
            else
              (case (if new_repetitions = 1 then Inr 1
                     else if new_repetitions = 2 then Inr 6
                     else (case float_of interval of
                             Inl e \<Rightarrow> Inl e
                           | Inr i \<Rightarrow> math_ceil (float64 (i * float64 ease_factor)))) of
                 Inl e \<Rightarrow> Inl e
               | Inr new_interval \<Rightarrow>
              (case (if grade = 5
                     then (case float_of (real_of_int new_interval) of
                             Inl e \<Rightarrow> Inl e
                           | Inr i \<Rightarrow> math_ceil (float64 (i * easy_bonus)))
                     else Inr new_interval) of
                 Inl e \<Rightarrow> Inl e
               | Inr new_interval \<Rightarrow>
              (case float_of (real_of_int (5 - grade)) of
                 Inl e \<Rightarrow> Inl e
               | Inr d \<Rightarrow>
                 (let new_stage =
                        (if real_of_int new_interval \<ge> mastery_threshold then MASTERED else REVIEW);
                      new_ease_factor =
                        float64 (float64 ease_factor +
                          float64 (float64 0.1 -
                            float64 (d * float64 (float64 0.08 + float64 (d * float64 0.02)))));
                      new_ease_factor = max new_ease_factor ease_factor_min
                  in Inr (real_of_int new_interval, new_ease_factor, new_repetitions, new_stage)))))))
      in case branch of
           Inl e \<Rightarrow> Inl e
         | Inr (new_interval, new_ease_factor, new_repetitions, new_stage) \<Rightarrow>
             (case datetime_add now new_interval of
                Inl e \<Rightarrow> Inl e
              | Inr next_date \<Rightarrow>
                  Inr \<lparr>nr_next_interval = new_interval, nr_ease_factor = new_ease_factor,
                       nr_repetitions = new_repetitions, nr_stage = new_stage,
                       nr_next_review_date = next_date\<rparr>))"

subsection \<open>Progress records\<close>

text \<open>
  A progress record is a dict; a field is \<open>None\<close> when its key is absent, so that the
  defaults of \<^verbatim>\<open>progress.get(key, default)\<close> and the KeyError of \<^verbatim>\<open>progress[key]\<close>
  are both in the model. The fields are the keys \<^verbatim>\<open>initialize_item\<close> writes
  (\<^verbatim>\<open>last_review_date\<close> is stored as \<^verbatim>\<open>None\<close> there, which reads like an absent key).
\<close>

record review_entry =
  re_date :: datetime
  re_grade :: int
  re_response_time :: "real option"
  re_previous_interval :: real
  re_new_interval :: real

record progress =
  pr_item_id :: "string option"
  pr_type :: "string option"
  pr_content :: "(string \<times> string) list option"
  pr_interval :: "real option"
  pr_ease_factor :: "real option"
  pr_repetitions :: "int option"
  pr_stage :: "string option"
  pr_next_review_date :: "datetime option"
  pr_created_date :: "datetime option"
  pr_last_review_date :: "datetime option"
  pr_total_reviews :: "int option"
  pr_correct_reviews :: "int option"
  pr_review_history :: "review_entry list option"
  pr_difficulty_level :: "real option"
  pr_tags :: "string list option"
  pr_source :: "string option"

text \<open>
  \<^verbatim>\<open>initialize_item(item_id, item_type, content=None)\<close>: \<open>item_type\<close> is an
  \<^verbatim>\<open>ItemType\<close> (\<open>Inl\<close>) or already its string (\<open>Inr\<close>); \<^verbatim>\<open>content or {}\<close>.
\<close>

definition initialize_item ::
  "datetime \<Rightarrow> string \<Rightarrow> ItemType + string \<Rightarrow> (string \<times> string) list option \<Rightarrow> progress" where
  "initialize_item now item_id item_type content =
     \<lparr>pr_item_id = Some item_id,
      pr_type = Some (case item_type of Inl t \<Rightarrow> ItemType_value t | Inr s \<Rightarrow> s),
      pr_content = Some (dict_get content []),
      pr_interval = Some 1,
      pr_ease_factor = Some ease_factor_default,
      pr_repetitions = Some 0,
      pr_stage = Some (LearningStage_value NEW),
      pr_next_review_date = Some now,
      pr_created_date = Some now,
      pr_last_review_date = None,
      pr_total_reviews = Some 0,
      pr_correct_reviews = Some 0,
      pr_review_history = Some [],
      pr_difficulty_level = Some 1.0,
      pr_tags = Some [],
      pr_source = Some ''system''\<rparr>"

subsection \<open>\<^verbatim>\<open>_update_difficulty_level\<close> and \<^verbatim>\<open>update_progress\<close>\<close>

text \<open>
  \<^verbatim>\<open>review_history[-5:]\<close> is the last five entries (all of them when there are fewer);
  the early \<^verbatim>\<open>return\<close> and the missing \<^verbatim>\<open>else\<close> leave the record as it is.
\<close>

definition update_difficulty_level :: "progress \<Rightarrow> progress" where
  "update_difficulty_level progress =
     (let review_history = dict_get (pr_review_history progress) [] in
      if length review_history < 3 then progress
      else
        (let recent_reviews = drop (length review_history - 5) review_history;
             recent_grades = map re_grade recent_reviews;
             avg_grade = real_of_int (sum_list recent_grades) / real (length recent_grades)
         in if avg_grade \<ge> 4.5 then
              progress\<lparr>pr_difficulty_level :=
                Some (max 0.5 (dict_get (pr_difficulty_level progress) 1.0 - 0.1))\<rparr>
            else if avg_grade < 3.0 then
              progress\<lparr>pr_difficulty_level :=
                Some (min 2.0 (dict_get (pr_difficulty_level progress) 1.0 + 0.2))\<rparr>
            else progress))"

text \<open>
  \<^verbatim>\<open>update_progress(progress, grade, response_time=None)\<close>. Everything that can raise
  (the stage string, the three \<^verbatim>\<open>progress[...]\<close> reads, \<^verbatim>\<open>calculate_next_review\<close>)
  comes before the first mutation, so a raising call leaves the dict as it was.
\<close>

definition update_progress :: "datetime \<Rightarrow> progress \<Rightarrow> int \<Rightarrow> real option \<Rightarrow> py_error + progress" where
  "update_progress now progress grade response_time =
     (case LearningStage_of (dict_get (pr_stage progress) (LearningStage_value NEW)) of
        Inl e \<Rightarrow> Inl e
      | Inr current_stage \<Rightarrow>
     (case dict_item (pr_interval progress) of
        Inl e \<Rightarrow> Inl e
      | Inr interval \<Rightarrow>
     (case dict_item (pr_ease_factor progress) of
        Inl e \<Rightarrow> Inl e
      | Inr ease_factor \<Rightarrow>
     (case dict_item (pr_repetitions progress) of
        Inl e \<Rightarrow> Inl e
      | Inr repetitions \<Rightarrow>
     (case calculate_next_review now interval ease_factor grade repetitions current_stage of
        Inl e \<Rightarrow> Inl e
      | Inr result \<Rightarrow>
          (let review_entry =
                 \<lparr>re_date = now, re_grade = grade, re_response_time = response_time,
                  re_previous_interval = interval, re_new_interval = nr_next_interval result\<rparr>;
               review_history = dict_get (pr_review_history progress) [] @ [review_entry];
               review_history =
                 (if length review_history > 20
                  then drop (length review_history - 20) review_history
                  else review_history)
           in Inr (update_difficulty_level
                (progress
                  \<lparr>pr_interval := Some (nr_next_interval result),
                   pr_ease_factor := Some (nr_ease_factor result),
                   pr_repetitions := Some (nr_repetitions result),
                   pr_stage := Some (LearningStage_value (nr_stage result)),
                   pr_next_review_date := Some (nr_next_review_date result),
                   pr_last_review_date := Some now,
                   pr_total_reviews := Some (dict_get (pr_total_reviews progress) 0 + 1),
                   pr_correct_reviews :=
                     Some (dict_get (pr_correct_reviews progress) 0
                           + (if grade \<ge> grade_threshold then 1 else 0)),
                   pr_review_history := Some review_history\<rparr>))))))))"

text \<open>
  A caller reviewing one item again and again: each event is a clock reading, a grade
  and a response time. A call that raises has not touched the record, so the next
  event meets the record unchanged.
\<close>

fun review_sequence :: "progress \<Rightarrow> (datetime \<times> int \<times> real option) list \<Rightarrow> progress" where
  "review_sequence progress [] = progress"
| "review_sequence progress ((now, grade, response_time) # events) =
     (case update_progress now progress grade response_time of
        Inl e \<Rightarrow> review_sequence progress events
      | Inr progress' \<Rightarrow> review_sequence progress' events)"

subsection \<open>\<^verbatim>\<open>get_due_items\<close> and its helpers\<close>

record ReviewItem =
  ri_item_id :: string
  ri_item_type :: ItemType
  ri_content :: "(string \<times> string) list"
  ri_stage :: LearningStage
  ri_priority :: real
  ri_days_overdue :: int
  ri_difficulty_score :: real

definition calculate_difficulty_score :: "progress \<Rightarrow> real" where
  "calculate_difficulty_score progress =
     (let total_reviews = dict_get (pr_total_reviews progress) 0;
          correct_reviews = dict_get (pr_correct_reviews progress) 0
      in if total_reviews = 0 then 1.0
         else
           (let accuracy = real_of_int correct_reviews / real_of_int total_reviews;
                ease_factor = dict_get (pr_ease_factor progress) ease_factor_default;
                difficulty = (1 - accuracy) + (3.0 - ease_factor) / 2.0
            in max 0.1 (min 2.0 difficulty)))"

text \<open>\<^verbatim>\<open>timedelta.days\<close> is the whole number of days, rounded down.\<close>

definition calculate_priority :: "progress \<Rightarrow> datetime \<Rightarrow> real" where
  "calculate_priority progress current_time =
     (let next_review = dict_get (pr_next_review_date progress) current_time;
          days_overdue = \<lfloor>current_time - next_review\<rfloor>;
          ease_factor = dict_get (pr_ease_factor progress) ease_factor_default;
          priority = real_of_int days_overdue + (3.0 - ease_factor)
      in max priority 0)"

text \<open>
  \<^verbatim>\<open>if item_types and progress.get('type') not in item_types: continue\<close>: no filter
  when \<open>item_types\<close> is \<^verbatim>\<open>None\<close> or empty; a record without a type is in no list.
\<close>

definition type_filtered_out :: "string list option \<Rightarrow> progress \<Rightarrow> bool" where
  "type_filtered_out item_types progress =
     (case item_types of
        None \<Rightarrow> False
      | Some ts \<Rightarrow> ts \<noteq> [] \<and> (case pr_type progress of None \<Rightarrow> True | Some t \<Rightarrow> t \<notin> set ts))"

text \<open>
  The body of the loop for a record that is due: the \<^verbatim>\<open>ReviewItem\<close> appended. The stage
  string is parsed without a guard (ValueError); the type string falls back to
  \<open>VOCABULARY\<close>.
\<close>

definition make_review_item :: "datetime \<Rightarrow> string \<Rightarrow> progress \<Rightarrow> py_error + ReviewItem" where
  "make_review_item current_time item_id progress =
     (let next_review = dict_get (pr_next_review_date progress) current_time;
          priority = calculate_priority progress current_time;
          days_overdue = max 0 \<lfloor>current_time - next_review\<rfloor>;
          difficulty_score = calculate_difficulty_score progress
      in case LearningStage_of (dict_get (pr_stage progress) (LearningStage_value NEW)) of
           Inl e \<Rightarrow> Inl e
         | Inr stage \<Rightarrow>
             (let item_type =
                    (case ItemType_of (dict_get (pr_type progress) (ItemType_value VOCABULARY)) of
                       Inl e \<Rightarrow> VOCABULARY
                     | Inr t \<Rightarrow> t)
              in Inr \<lparr>ri_item_id = item_id, ri_item_type = item_type,
                      ri_content = dict_get (pr_content progress) [],
                      ri_stage = stage, ri_priority = priority,
                      ri_days_overdue = days_overdue,
                      ri_difficulty_score = difficulty_score\<rparr>))"

text \<open>
  \<^verbatim>\<open>for item_id, progress in user_progress.items()\<close>: the dict is the list of its items
  in iteration order; the first exception ends the call.
\<close>

fun due_items_loop ::
  "string list option \<Rightarrow> datetime \<Rightarrow> (string \<times> progress) list \<Rightarrow> py_error + ReviewItem list" where
  "due_items_loop item_types current_time [] = Inr []"
| "due_items_loop item_types current_time ((item_id, progress) # rest) =
     (if type_filtered_out item_types progress then due_items_loop item_types current_time rest
      else if dict_get (pr_next_review_date progress) current_time \<le> current_time then
        (case make_review_item current_time item_id progress of
           Inl e \<Rightarrow> Inl e
         | Inr review_item \<Rightarrow>
             (case due_items_loop item_types current_time rest of
                Inl e \<Rightarrow> Inl e
              | Inr due_items \<Rightarrow> Inr (review_item # due_items)))
      else due_items_loop item_types current_time rest)"

text \<open>
  \<^verbatim>\<open>max_items or self.max_daily_reviews\<close> takes the default for \<^verbatim>\<open>None\<close> and for 0.
  \<^verbatim>\<open>list.sort(key=..., reverse=True)\<close> is stable: it reverses the list, sorts it
  ascending and stably, and reverses the result.
\<close>

definition get_due_items ::
  "datetime \<Rightarrow> (string \<times> progress) list \<Rightarrow> int option \<Rightarrow> string list option
     \<Rightarrow> py_error + ReviewItem list" where
  "get_due_items current_time user_progress max_items item_types =
     (let max_items =
            (case max_items of
               None \<Rightarrow> max_daily_reviews
             | Some m \<Rightarrow> if m = 0 then max_daily_reviews else m)
      in case due_items_loop item_types current_time user_progress of
           Inl e \<Rightarrow> Inl e
         | Inr due_items \<Rightarrow>
             Inr (py_slice_to (rev (sort_key ri_priority (rev due_items))) max_items))"

section \<open>Quiz sessions (\<^verbatim>\<open>quiz_manager.py\<close>)\<close>

datatype QuizDifficulty = EASY | MEDIUM | HARD

datatype QuizCategory =
  QUANTITATIVE_APTITUDE | GENERAL_INTELLIGENCE | GENERAL_AWARENESS | ENGLISH_COMPREHENSION | MIXED

fun QuizCategory_value :: "QuizCategory \<Rightarrow> string" where
  "QuizCategory_value QUANTITATIVE_APTITUDE = ''quantitative_aptitude''"
| "QuizCategory_value GENERAL_INTELLIGENCE = ''general_intelligence''"
| "QuizCategory_value GENERAL_AWARENESS = ''general_awareness''"
| "QuizCategory_value ENGLISH_COMPREHENSION = ''english_comprehension''"
| "QuizCategory_value MIXED = ''mixed''"

record QuizQuestion =
  qq_id :: string
  qq_category :: QuizCategory
  qq_difficulty :: QuizDifficulty
  qq_question :: string
  qq_options :: "string list"
  qq_correct_answer :: int
  qq_explanation :: string
  qq_tags :: "string list"
  qq_source :: string

record QuizSession =
  qs_session_id :: string
  qs_user_id :: int
  qs_questions :: "QuizQuestion list"
  qs_current_question :: int
  qs_score :: int
  qs_start_time :: datetime
  qs_end_time :: "datetime option"
  qs_user_answers :: "int option list"
  qs_time_per_question :: "real list"
  qs_category :: QuizCategory
  qs_difficulty :: QuizDifficulty

text \<open>
  The recommendation strings of \<^verbatim>\<open>_generate_recommendations\<close> carry emoji; they are
  modelled by which message is appended, and the area names
  (\<^verbatim>\<open>cat.replace('_', ' ').title()\<close>) by the category they render.
\<close>

datatype recommendation =
  FocusFundamentals | PracticeDaily | GoodProgress | TimeManagement
| FineTune | SpeedAccuracy | Outstanding | HarderLevels | FocusAreas "QuizCategory list"

record QuizResult =
  qr_session_id :: string
  qr_user_id :: int
  qr_total_questions :: int
  qr_correct_answers :: int
  qr_score_percentage :: real
  qr_time_taken :: real
  qr_category :: QuizCategory
  qr_difficulty :: QuizDifficulty
  qr_weak_areas :: "QuizCategory list"
  qr_strong_areas :: "QuizCategory list"
  qr_recommendations :: "recommendation list"

text \<open>
  The manager: whether a database manager and a scheduler were passed to
  \<^verbatim>\<open>__init__\<close>, the dict of active sessions and the question bank, both in insertion
  order.
\<close>

record QuizManager =
  qm_db_manager :: bool
  qm_spaced_repetition :: bool
  qm_active_sessions :: "(string \<times> QuizSession) list"
  qm_question_bank :: "(QuizCategory \<times> QuizQuestion list) list"


subsection \<open>The question bank\<close>

text \<open>
  \<^verbatim>\<open>_initialize_question_bank\<close>. The texts are the source's; the five explanations
  that hold characters outside ASCII are written with \<open>x\<close>, \<open>->\<close> and \<open>^3\<close> in their
  places. \<^verbatim>\<open>source\<close> has the dataclass default.
\<close>

definition qa_001 :: QuizQuestion where
  "qa_001 =
     \<lparr>qq_id = ''qa_001'', qq_category = QUANTITATIVE_APTITUDE, qq_difficulty = EASY,
      qq_question = ''If a train travels 60 km in 1 hour, how far will it travel in 3.5 hours?'',
      qq_options = [''180 km'', ''210 km'', ''240 km'', ''200 km''],
      qq_correct_answer = 1,
      qq_explanation = ''Distance = Speed x Time = 60 x 3.5 = 210 km'',
      qq_tags = [''speed'', ''distance'', ''time''],
      qq_source = ''SSC-CGL Practice''\<rparr>"

definition qa_002 :: QuizQuestion where
  "qa_002 =
     \<lparr>qq_id = ''qa_002'', qq_category = QUANTITATIVE_APTITUDE, qq_difficulty = MEDIUM,
      qq_question = ''What is 15% of 240?'',
      qq_options = [''36'', ''32'', ''40'', ''38''],
      qq_correct_answer = 0,
      qq_explanation = ''15% of 240 = (15/100) x 240 = 36'',
      qq_tags = [''percentage'', ''calculation''],
      qq_source = ''SSC-CGL Practice''\<rparr>"

definition qa_003 :: QuizQuestion where
  "qa_003 =
     \<lparr>qq_id = ''qa_003'', qq_category = QUANTITATIVE_APTITUDE, qq_difficulty = HARD,
      qq_question = ''A shopkeeper marks his goods 25% above cost price and gives a discount of 10%. His profit percentage is:'',
      qq_options = [''12.5%'', ''15%'', ''10%'', ''13.5%''],
      qq_correct_answer = 0,
      qq_explanation = ''Let CP = 100. MP = 125. SP = 125 - 10% of 125 = 112.5. Profit% = (112.5-100)/100 x 100 = 12.5%'',
      qq_tags = [''profit'', ''loss'', ''discount'', ''marked_price''],
      qq_source = ''SSC-CGL Practice''\<rparr>"

definition gi_001 :: QuizQuestion where
  "gi_001 =
     \<lparr>qq_id = ''gi_001'', qq_category = GENERAL_INTELLIGENCE, qq_difficulty = EASY,
      qq_question = ''In a certain code, COMPUTER is written as RFUVQNPC. How will MEDICINE be written?'',
      qq_options = [''MFEJDJOF'', ''NFEJDJOF'', ''EOJDJEFM'', ''FMEJDJFN''],
      qq_correct_answer = 3,
      qq_explanation = ''Each letter is moved 3 positions forward: M->P, E->H, D->G, etc. Wait, let me recalculate: Actually each letter is reversed in position. MEDICINE reversed is ENICEFEM, but using the same pattern as COMPUTER->RFUVQNPC, it should be FMEJDJFN'',
      qq_tags = [''coding'', ''decoding'', ''pattern''],
      qq_source = ''SSC-CGL Practice''\<rparr>"

definition gi_002 :: QuizQuestion where
  "gi_002 =
     \<lparr>qq_id = ''gi_002'', qq_category = GENERAL_INTELLIGENCE, qq_difficulty = MEDIUM,
      qq_question = ''Find the odd one out: 8, 27, 64, 125, 216, 343'',
      qq_options = [''8'', ''27'', ''125'', ''343''],
      qq_correct_answer = 0,
      qq_explanation = ''All are perfect cubes except 8. Actually, 8 = 2^3, so all are cubes. Let me reconsider: 8=2^3, 27=3^3, 64=4^3, 125=5^3, 216=6^3, 343=7^3. All are cubes, so this question needs revision.'',
      qq_tags = [''series'', ''cubes'', ''odd_one_out''],
      qq_source = ''SSC-CGL Practice''\<rparr>"

definition ga_001 :: QuizQuestion where
  "ga_001 =
     \<lparr>qq_id = ''ga_001'', qq_category = GENERAL_AWARENESS, qq_difficulty = EASY,
      qq_question = ''Who is the current President of India (as of 2025)?'',
      qq_options = [''Ram Nath Kovind'', ''Droupadi Murmu'', ''A.P.J. Abdul Kalam'', ''Pranab Mukherjee''],
      qq_correct_answer = 1,
      qq_explanation = ''Droupadi Murmu is the current President of India, having taken office in July 2022.'',
      qq_tags = [''current_affairs'', ''president'', ''india''],
      qq_source = ''SSC-CGL Practice''\<rparr>"

definition ga_002 :: QuizQuestion where
  "ga_002 =
     \<lparr>qq_id = ''ga_002'', qq_category = GENERAL_AWARENESS, qq_difficulty = MEDIUM,
      qq_question = ''Which of the following is NOT a Fundamental Right in the Indian Constitution?'',
      qq_options = [''Right to Equality'', ''Right to Education'', ''Right to Property'', ''Right to Freedom''],
      qq_correct_answer = 2,
      qq_explanation = ''Right to Property was removed as a Fundamental Right by the 44th Constitutional Amendment in 1978.'',
      qq_tags = [''constitution'', ''fundamental_rights'', ''indian_polity''],
      qq_source = ''SSC-CGL Practice''\<rparr>"

definition ec_001 :: QuizQuestion where
  "ec_001 =
     \<lparr>qq_id = ''ec_001'', qq_category = ENGLISH_COMPREHENSION, qq_difficulty = EASY,
      qq_question = ''Choose the correct synonym for 'ABUNDANT':'',
      qq_options = [''Scarce'', ''Plentiful'', ''Limited'', ''Rare''],
      qq_correct_answer = 1,
      qq_explanation = ''Abundant means existing in large quantities; plentiful.'',
      qq_tags = [''synonyms'', ''vocabulary''],
      qq_source = ''SSC-CGL Practice''\<rparr>"

definition ec_002 :: QuizQuestion where
  "ec_002 =
     \<lparr>qq_id = ''ec_002'', qq_category = ENGLISH_COMPREHENSION, qq_difficulty = MEDIUM,
      qq_question = ''Identify the grammatically correct sentence:'',
      qq_options = [''Neither of the boys have done their homework.'',
      ''Neither of the boys has done his homework.'',
      ''Neither of the boys have done his homework.'',
      ''Neither of the boys has done their homework.''],
      qq_correct_answer = 1,
      qq_explanation = '''Neither' is singular, so it takes 'has' and 'his' (singular pronouns).'',
      qq_tags = [''grammar'', ''subject_verb_agreement'', ''pronouns''],
      qq_source = ''SSC-CGL Practice''\<rparr>"

definition initialize_question_bank :: "(QuizCategory \<times> QuizQuestion list) list" where
  "initialize_question_bank =
     [(QUANTITATIVE_APTITUDE, [qa_001, qa_002, qa_003]),
      (GENERAL_INTELLIGENCE, [gi_001, gi_002]),
      (GENERAL_AWARENESS, [ga_001, ga_002]),
      (ENGLISH_COMPREHENSION, [ec_001, ec_002])]"

text \<open>\<^verbatim>\<open>QuizManager(db_manager, spaced_repetition)\<close>: no session yet.\<close>

definition QuizManager_init :: "bool \<Rightarrow> bool \<Rightarrow> QuizManager" where
  "QuizManager_init db_manager spaced_repetition =
     \<lparr>qm_db_manager = db_manager, qm_spaced_repetition = spaced_repetition,
      qm_active_sessions = [], qm_question_bank = initialize_question_bank\<rparr>"

subsection \<open>\<^verbatim>\<open>_select_questions\<close> and \<^verbatim>\<open>create_weekly_quiz\<close>\<close>

text \<open>
  \<^verbatim>\<open>random.sample(all_questions, k)\<close> is the parameter \<open>sample\<close>: the draw the call
  makes. It raises ValueError for a negative \<open>k\<close>. The backfill loop extends the list
  category by category with the questions not yet in it.
\<close>

definition select_questions ::
  "QuizManager \<Rightarrow> (QuizQuestion list \<Rightarrow> nat \<Rightarrow> QuizQuestion list) \<Rightarrow> QuizCategory
     \<Rightarrow> QuizDifficulty \<Rightarrow> int \<Rightarrow> py_error + QuizQuestion list" where
  "select_questions mgr sample category difficulty count =
     (let all_questions =
            (if category = MIXED then
               concat (map (\<lambda>(cat, cat_questions).
                              filter (\<lambda>q. qq_difficulty q = difficulty) cat_questions)
                           (qm_question_bank mgr))
             else
               filter (\<lambda>q. qq_difficulty q = difficulty)
                 (dict_get (map_of (qm_question_bank mgr) category) []));
          all_questions =
            (if int (length all_questions) < count then
               foldl (\<lambda>acc (cat, cat_questions). acc @ filter (\<lambda>q. q \<notin> set acc) cat_questions)
                 all_questions (qm_question_bank mgr)
             else all_questions);
          k = min count (int (length all_questions))
      in if k < 0 then Inl ValueError else Inr (sample all_questions (nat k)))"

text \<open>
  \<^verbatim>\<open>create_weekly_quiz\<close>. The session id the call builds from the user id, the clock
  and a fresh UUID is the parameter \<open>session_id\<close>. The function has no check on the
  sessions already active.
\<close>

definition create_weekly_quiz ::
  "QuizManager \<Rightarrow> (QuizQuestion list \<Rightarrow> nat \<Rightarrow> QuizQuestion list) \<Rightarrow> string \<Rightarrow> datetime
     \<Rightarrow> int \<Rightarrow> QuizCategory \<Rightarrow> QuizDifficulty \<Rightarrow> int \<Rightarrow> (py_error + QuizSession) \<times> QuizManager" where
  "create_weekly_quiz mgr sample session_id now user_id category difficulty question_count =
     (case select_questions mgr sample category difficulty question_count of
        Inl e \<Rightarrow> (Inl e, mgr)
      | Inr questions \<Rightarrow>
          (let session =
                 \<lparr>qs_session_id = session_id, qs_user_id = user_id, qs_questions = questions,
                  qs_current_question = 0, qs_score = 0, qs_start_time = now,
                  qs_end_time = None,
                  qs_user_answers = replicate (length questions) None,
                  qs_time_per_question = [], qs_category = category,
                  qs_difficulty = difficulty\<rparr>
           in (Inr session,
               mgr\<lparr>qm_active_sessions := AList.update session_id session (qm_active_sessions mgr)\<rparr>)))"

subsection \<open>\<^verbatim>\<open>_generate_result\<close>\<close>

definition generate_recommendations :: "real \<Rightarrow> QuizCategory list \<Rightarrow> recommendation list" where
  "generate_recommendations score_percentage weak_areas =
     (let recommendations =
            (if score_percentage < 40 then [FocusFundamentals, PracticeDaily]
             else if score_percentage < 60 then [GoodProgress, TimeManagement]
             else if score_percentage < 80 then [FineTune, SpeedAccuracy]
             else [Outstanding, HarderLevels])
      in if weak_areas \<noteq> [] then recommendations @ [FocusAreas weak_areas] else recommendations)"

text \<open>
  The loop over \<^verbatim>\<open>enumerate(session.questions)\<close> that fills
  \<^verbatim>\<open>category_performance\<close>, a dict from category to \<open>(correct, total)\<close> in insertion
  order; \<^verbatim>\<open>session.user_answers[i]\<close> raises IndexError when the answers run out.
\<close>

fun category_performance ::
  "QuizQuestion list \<Rightarrow> int option list \<Rightarrow> (QuizCategory \<times> int \<times> int) list
     \<Rightarrow> py_error + (QuizCategory \<times> int \<times> int) list" where
  "category_performance [] answers perf = Inr perf"
| "category_performance (question # questions) [] perf = Inl IndexError"
| "category_performance (question # questions) (user_answer # answers) perf =
     (let cat = qq_category question;
          (correct, total) = dict_get (map_of perf cat) (0, 0);
          total = total + 1;
          correct = (if user_answer = Some (qq_correct_answer question) then correct + 1 else correct)
      in category_performance questions answers (AList.update cat (correct, total) perf))"

text \<open>
  \<^verbatim>\<open>(end_time - start_time).total_seconds()\<close> is the difference in days times 86400;
  a session without \<^verbatim>\<open>end_time\<close> raises TypeError and one without questions
  ZeroDivisionError. Saving the result only writes a log line.
\<close>

definition generate_result :: "QuizSession \<Rightarrow> py_error + QuizResult" where
  "generate_result session =
     (case qs_end_time session of
        None \<Rightarrow> Inl TypeError
      | Some end_time \<Rightarrow>
          (let total_time = (end_time - qs_start_time session) * 86400 in
           if length (qs_questions session) = 0 then Inl ZeroDivisionError
           else
             (let score_percentage =
                    real_of_int (qs_score session) / real (length (qs_questions session)) * 100
              in case category_performance (qs_questions session) (qs_user_answers session) [] of
                   Inl e \<Rightarrow> Inl e
                 | Inr perf \<Rightarrow>
                     (let weak_areas =
                            map fst (filter (\<lambda>(cat, correct, total).
                              real_of_int correct / real_of_int total * 100 < 60) perf);
                          strong_areas =
                            map fst (filter (\<lambda>(cat, correct, total).
                              \<not> real_of_int correct / real_of_int total * 100 < 60 \<and>
                              real_of_int correct / real_of_int total * 100 \<ge> 80) perf);
                          recommendations = generate_recommendations score_percentage weak_areas
                      in Inr \<lparr>qr_session_id = qs_session_id session,
                              qr_user_id = qs_user_id session,
                              qr_total_questions = int (length (qs_questions session)),
                              qr_correct_answers = qs_score session,
                              qr_score_percentage = score_percentage,
                              qr_time_taken = total_time,
                              qr_category = qs_category session,
                              qr_difficulty = qs_difficulty session,
                              qr_weak_areas = weak_areas,
                              qr_strong_areas = strong_areas,
                              qr_recommendations = recommendations\<rparr>))))"

subsection \<open>\<^verbatim>\<open>_update_spaced_repetition\<close>\<close>

text \<open>
  Every question is graded 5 or 2 against a progress record made on the spot; the
  updated records are dropped, so only an exception of \<^verbatim>\<open>update_progress\<close> can be
  seen from outside.
\<close>

fun update_spaced_repetition_loop ::
  "datetime \<Rightarrow> QuizQuestion list \<Rightarrow> int option list \<Rightarrow> py_error + unit" where
  "update_spaced_repetition_loop now [] answers = Inr ()"
| "update_spaced_repetition_loop now (question # questions) [] = Inl IndexError"
| "update_spaced_repetition_loop now (question # questions) (user_answer # answers) =
     (let grade = (if user_answer = Some (qq_correct_answer question) then 5 else 2);
          progress = initialize_item now (qq_id question)
                       (Inr (QuizCategory_value (qq_category question))) None
      in case update_progress now progress grade None of
           Inl e \<Rightarrow> Inl e
         | Inr updated \<Rightarrow> update_spaced_repetition_loop now questions answers)"

definition update_spaced_repetition :: "QuizManager \<Rightarrow> datetime \<Rightarrow> QuizSession \<Rightarrow> py_error + unit" where
  "update_spaced_repetition mgr now session =
     (if \<not> qm_spaced_repetition mgr then Inr ()
      else update_spaced_repetition_loop now (qs_questions session) (qs_user_answers session))"

subsection \<open>\<^verbatim>\<open>submit_answer\<close>\<close>

text \<open>
  The dict a successful call returns (\<^verbatim>\<open>quiz_completed\<close> and \<^verbatim>\<open>final_result\<close> are set
  only on the last question), the \<^verbatim>\<open>{"error": ...}\<close> dict, or an exception.
\<close>

record answer_response =
  ar_correct :: bool
  ar_correct_answer :: int
  ar_explanation :: string
  ar_current_score :: int
  ar_questions_completed :: int
  ar_total_questions :: int
  ar_quiz_completed :: bool
  ar_final_result :: "QuizResult option"

datatype submit_outcome = ErrorResponse string | Response answer_response | Raised py_error

text \<open>
  The session is an object the dict holds by reference: what the call does to it is
  seen under its key. \<open>put_session\<close> writes the mutated session back.
\<close>

definition put_session :: "QuizManager \<Rightarrow> string \<Rightarrow> QuizSession \<Rightarrow> QuizManager" where
  "put_session mgr session_id session =
     mgr\<lparr>qm_active_sessions := AList.update session_id session (qm_active_sessions mgr)\<rparr>"

text \<open>
  The statements of \<^verbatim>\<open>submit_answer\<close> in their order, so that a call that raises
  leaves the session as mutated up to the raise. The two error returns come before
  any mutation. The source has no statement that removes the session from
  \<^verbatim>\<open>active_sessions\<close>.
\<close>

definition submit_answer ::
  "QuizManager \<Rightarrow> string \<Rightarrow> int \<Rightarrow> datetime \<Rightarrow> submit_outcome \<times> QuizManager" where
  "submit_answer mgr session_id answer now =
     (case map_of (qm_active_sessions mgr) session_id of
        None \<Rightarrow> (ErrorResponse ''Session not found'', mgr)
      | Some session \<Rightarrow>
          (let current_q_idx = qs_current_question session in
           if current_q_idx \<ge> int (length (qs_questions session)) then
             (ErrorResponse ''Quiz already completed'', mgr)
           else
             (case py_index (length (qs_user_answers session)) current_q_idx of
                None \<Rightarrow> (Raised IndexError, mgr)
              | Some ia \<Rightarrow>
                  (let session = session\<lparr>qs_user_answers := (qs_user_answers session)[ia := Some answer]\<rparr>;
                       question_time = (now - qs_start_time session) * 86400;
                       question_time =
                         (if qs_time_per_question session \<noteq> []
                          then question_time - sum_list (qs_time_per_question session)
                          else question_time);
                       session = session\<lparr>qs_time_per_question := qs_time_per_question session @ [question_time]\<rparr>
                   in case py_index (length (qs_questions session)) current_q_idx of
                        None \<Rightarrow> (Raised IndexError, put_session mgr session_id session)
                      | Some iq \<Rightarrow>
                          (let correct_answer = qq_correct_answer (qs_questions session ! iq);
                               is_correct = (answer = correct_answer);
                               session = (if is_correct then session\<lparr>qs_score := qs_score session + 1\<rparr>
                                          else session);
                               session = session\<lparr>qs_current_question := qs_current_question session + 1\<rparr>;
                               response =
                                 \<lparr>ar_correct = is_correct, ar_correct_answer = correct_answer,
                                  ar_explanation = qq_explanation (qs_questions session ! iq),
                                  ar_current_score = qs_score session,
                                  ar_questions_completed = qs_current_question session,
                                  ar_total_questions = int (length (qs_questions session)),
                                  ar_quiz_completed = False, ar_final_result = None\<rparr>
                           in if qs_current_question session \<ge> int (length (qs_questions session)) then
                                (let session = session\<lparr>qs_end_time := Some now\<rparr> in
                                 case generate_result session of
                                   Inl e \<Rightarrow> (Raised e, put_session mgr session_id session)
                                 | Inr quiz_result \<Rightarrow>
                                     (let response = response\<lparr>ar_quiz_completed := True,
                                                              ar_final_result := Some quiz_result\<rparr>
                                      in case update_spaced_repetition mgr now session of
                                           Inl e \<Rightarrow> (Raised e, put_session mgr session_id session)
                                         | Inr u \<Rightarrow> (Response response, put_session mgr session_id session)))
                              else (Response response, put_session mgr session_id session))))))"

subsection \<open>Sequences of calls\<close>

text \<open>
  A client of the manager: any sequence of \<^verbatim>\<open>create_weekly_quiz\<close> and
  \<^verbatim>\<open>submit_answer\<close> calls, each with its arguments (and, for a creation, the random
  draw and the session id it generates), started on a new manager.
\<close>

datatype quiz_call =
  Create "QuizQuestion list \<Rightarrow> nat \<Rightarrow> QuizQuestion list" string datetime int QuizCategory QuizDifficulty int
| Submit string int datetime

fun run_call :: "QuizManager \<Rightarrow> quiz_call \<Rightarrow> QuizManager" where
  "run_call mgr (Create sample session_id now user_id category difficulty question_count) =
     snd (create_weekly_quiz mgr sample session_id now user_id category difficulty question_count)"
| "run_call mgr (Submit session_id answer now) = snd (submit_answer mgr session_id answer now)"

definition run_calls :: "QuizManager \<Rightarrow> quiz_call list \<Rightarrow> QuizManager" where
  "run_calls mgr calls = foldl run_call mgr calls"

text \<open>The sessions of one user in the active set, as the bot's handlers list them.\<close>

definition user_sessions :: "QuizManager \<Rightarrow> int \<Rightarrow> QuizSession list" where
  "user_sessions mgr user_id = filter (\<lambda>s. qs_user_id s = user_id) (map snd (qm_active_sessions mgr))"

text \<open>One possible draw of \<^verbatim>\<open>random.sample\<close>: the first \<open>k\<close> candidates.\<close>

definition sample_prefix :: "QuizQuestion list \<Rightarrow> nat \<Rightarrow> QuizQuestion list" where
  "sample_prefix population k = take k population"

text \<open>The bounds a session keeps between calls.\<close>

definition session_invariant :: "QuizSession \<Rightarrow> bool" where
  "session_invariant s =
     (0 \<le> qs_score s \<and> qs_score s \<le> qs_current_question s \<and>
      qs_current_question s \<le> int (length (qs_questions s)) \<and>
      length (qs_user_answers s) = length (qs_questions s))"

text \<open>Every session of the active set keeps them.\<close>

definition sessions_ok :: "QuizManager \<Rightarrow> bool" where
  "sessions_ok mgr = (\<forall>(sid, s) \<in> set (qm_active_sessions mgr). session_invariant s)"


section \<open>Properties of the review scheduler\<close>

subsection \<open>Rounding to a double\<close>

text \<open>The rounding is to a nearest integer multiple of the unit in the last place.\<close>

lemma round_half_even_error: "\<bar>real_of_int (round_half_even y) - y\<bar> \<le> 1 / 2"
  unfolding round_half_even_def Let_def by (auto; linarith)

text \<open>
  How \<open>float64\<close> is computed at a given number: \<open>k\<close> is the number of binary places of
  the doubles around \<open>x\<close>, the one with \<open>2 ^ 52 \<le> |x| * 2 ^ k < 2 ^ 53\<close>.
\<close>

lemma float64_eval:
  assumes "k \<le> 1074" and "2 ^ 52 \<le> \<bar>x\<bar> * 2 ^ k" and "\<bar>x\<bar> * 2 ^ k < 2 ^ 53"
  shows "float64 x = real_of_int (round_half_even (x * 2 ^ k)) / 2 ^ k"
proof -
  from assms(2) have x0: "x \<noteq> 0" by auto
  then have xp: "0 < \<bar>x\<bar>" by simp
  have p: "(2::real) powr real_of_int (52 - int k) = 2 ^ 52 / 2 ^ k"
    by (simp add: powr_diff powr_realpow flip: powr_realpow)
  have q: "(2::real) powr real_of_int (52 - int k + 1) = 2 ^ 53 / 2 ^ k"
    by (simp add: powr_diff powr_add powr_realpow flip: powr_realpow)
  have lo: "(2::real) ^ 52 / 2 ^ k \<le> \<bar>x\<bar>"
    using assms(2) by (simp add: pos_divide_le_eq)
  have hi: "\<bar>x\<bar> < (2::real) ^ 53 / 2 ^ k"
    using assms(3) by (simp add: pos_less_divide_eq)
  from lo hi have "(2::real) powr real_of_int (52 - int k) \<le> \<bar>x\<bar>"
    and "\<bar>x\<bar> < (2::real) powr real_of_int (52 - int k + 1)"
    unfolding p q by simp_all
  then have fl: "\<lfloor>log 2 \<bar>x\<bar>\<rfloor> = 52 - int k"
    using floor_log_eq_powr_iff [of "\<bar>x\<bar>" 2 "52 - int k"] xp by simp
  have e: "max \<lfloor>log 2 \<bar>x\<bar>\<rfloor> (- 1022) = 52 - int k"
    unfolding fl using assms(1) by simp
  have u: "(2::real) powr real_of_int (52 - int k - 52) = 1 / 2 ^ k"
    by (simp add: powr_minus powr_realpow inverse_eq_divide flip: powr_realpow)
  show ?thesis
    unfolding float64_def Let_def e u using x0 by simp
qed

lemma float64_zero: "float64 0 = 0"
  by (simp add: float64_def)

text \<open>The unit in the last place, and the rounding error: half a unit at most.\<close>

lemma float64_ulp:
  assumes "x \<noteq> 0"
  defines "u \<equiv> 2 powr real_of_int (max \<lfloor>log 2 \<bar>x\<bar>\<rfloor> (- 1022) - 52)"
  shows "0 < u" and "u \<le> \<bar>x\<bar> / 2 ^ 52 + 1 / 2 ^ 1074"
proof -
  show "0 < u" by (simp add: u_def)
  from assms(1) have xp: "0 < \<bar>x\<bar>" by simp
  show "u \<le> \<bar>x\<bar> / 2 ^ 52 + 1 / 2 ^ 1074"
  proof (cases "- 1022 \<le> \<lfloor>log 2 \<bar>x\<bar>\<rfloor>")
    case True
    then have e: "max \<lfloor>log 2 \<bar>x\<bar>\<rfloor> (- 1022) = \<lfloor>log 2 \<bar>x\<bar>\<rfloor>" by simp
    have "2 powr real_of_int \<lfloor>log 2 \<bar>x\<bar>\<rfloor> \<le> 2 powr log 2 \<bar>x\<bar>"
      by (rule powr_mono) simp_all
    also have "\<dots> = \<bar>x\<bar>" using xp by simp
    finally have le: "2 powr real_of_int \<lfloor>log 2 \<bar>x\<bar>\<rfloor> \<le> \<bar>x\<bar>" .
    have "u = 2 powr real_of_int \<lfloor>log 2 \<bar>x\<bar>\<rfloor> / 2 ^ 52"
      unfolding u_def e by (simp add: powr_diff flip: powr_realpow)
    also have "\<dots> \<le> \<bar>x\<bar> / 2 ^ 52" using le by (simp add: divide_right_mono)
    finally show ?thesis by simp
  next
    case False
    then have e: "max \<lfloor>log 2 \<bar>x\<bar>\<rfloor> (- 1022) = - 1022" by simp
    have "u = 1 / 2 ^ 1074"
      unfolding u_def e by (simp add: powr_minus inverse_eq_divide flip: powr_realpow)
    then show ?thesis by simp
  qed
qed

lemma float64_error: "\<bar>float64 x - x\<bar> \<le> \<bar>x\<bar> / 2 ^ 53 + 1 / 2 ^ 1075"
proof (cases "x = 0")
  case True
  then show ?thesis by (simp add: float64_def)
next
  case False
  define u where "u = 2 powr real_of_int (max \<lfloor>log 2 \<bar>x\<bar>\<rfloor> (- 1022) - 52)"
  from float64_ulp [OF False] have u: "0 < u" "u \<le> \<bar>x\<bar> / 2 ^ 52 + 1 / 2 ^ 1074"
    unfolding u_def by simp_all
  have f: "float64 x = real_of_int (round_half_even (x / u)) * u"
    using False by (simp add: float64_def Let_def u_def)
  have "float64 x - x = (real_of_int (round_half_even (x / u)) - x / u) * u"
    unfolding f using u(1) by (simp add: algebra_simps)
  then have "\<bar>float64 x - x\<bar> = \<bar>real_of_int (round_half_even (x / u)) - x / u\<bar> * u"
    using u(1) by (simp add: abs_mult)
  also have "\<dots> \<le> (1 / 2) * u"
    by (rule mult_right_mono [OF round_half_even_error]) (use u(1) in simp)
  also have "\<dots> \<le> \<bar>x\<bar> / 2 ^ 53 + 1 / 2 ^ 1075"
    using u(2) by simp
  finally show ?thesis .
qed

lemma float64_bound: "\<bar>float64 x\<bar> \<le> 2 * \<bar>x\<bar> + 1"
proof -
  have "\<bar>x\<bar> / 2 ^ 53 + 1 / 2 ^ 1075 \<le> \<bar>x\<bar> + 1"
    by (rule add_mono) (simp_all add: field_simps)
  with float64_error [of x] show ?thesis by linarith
qed

lemma float64_bound_power: "\<bar>x\<bar> \<le> 2 ^ n \<Longrightarrow> \<bar>float64 x\<bar> \<le> 2 ^ (n + 2)"
proof -
  assume a: "\<bar>x\<bar> \<le> 2 ^ n"
  have p: "(2::real) ^ (n + 2) = 4 * 2 ^ n" by simp
  have one: "(1::real) \<le> 2 ^ n" by simp
  show ?thesis unfolding p using a one float64_bound [of x] by linarith
qed

lemma mult_bound_power:
  fixes a b :: real
  shows "\<bar>a\<bar> \<le> 2 ^ m \<Longrightarrow> \<bar>b\<bar> \<le> 2 ^ n \<Longrightarrow> \<bar>a * b\<bar> \<le> 2 ^ (m + n)"
  by (simp add: abs_mult power_add mult_mono)

lemma ceiling_bound_power:
  fixes x :: real
  shows "\<bar>x\<bar> \<le> 2 ^ n \<Longrightarrow> \<bar>real_of_int \<lceil>x\<rceil>\<bar> \<le> 2 ^ (n + 1)"
proof -
  assume a: "\<bar>x\<bar> \<le> 2 ^ n"
  have p: "(2::real) ^ (n + 1) = 2 * 2 ^ n" by simp
  have one: "(1::real) \<le> 2 ^ n" by simp
  show ?thesis
    unfolding p using a one le_of_int_ceiling [of x] of_int_ceiling_le_add_one [of x] by linarith
qed

lemma float_of_Inr: "float_of x = Inr a \<Longrightarrow> a = float64 x"
  by (auto simp: float_of_def split: if_splits)

lemma math_ceil_Inr: "math_ceil x = Inr n \<Longrightarrow> n = \<lceil>x\<rceil>"
  by (auto simp: math_ceil_def split: if_splits)

lemma power_below_1024:
  fixes x :: real
  shows "n < 1024 \<Longrightarrow> \<bar>x\<bar> \<le> 2 ^ n \<Longrightarrow> \<bar>x\<bar> < 2 ^ 1024"
proof -
  assume n: "n < 1024" and x: "\<bar>x\<bar> \<le> 2 ^ n"
  from n have "(2::real) ^ n < 2 ^ 1024" by (rule power_strict_increasing) simp
  with x show ?thesis by linarith
qed

lemma float_of_returns: "n < 1022 \<Longrightarrow> \<bar>x\<bar> \<le> 2 ^ n \<Longrightarrow> float_of x = Inr (float64 x)"
  using power_below_1024 [of "n + 2" "float64 x"] float64_bound_power [of x n]
  by (simp add: float_of_def)

lemma math_ceil_returns: "n < 1024 \<Longrightarrow> \<bar>x\<bar> \<le> 2 ^ n \<Longrightarrow> math_ceil x = Inr \<lceil>x\<rceil>"
  using power_below_1024 [of n x] by (simp add: math_ceil_def)

text \<open>
  The doubles of the literals of the source (\<^verbatim>\<open>0.02\<close>, \<^verbatim>\<open>0.08\<close>, \<^verbatim>\<open>0.1\<close>, \<^verbatim>\<open>0.2\<close>,
  \<^verbatim>\<open>1.3\<close>), and the other roundings the examples below go through.
\<close>

lemma float64_value_1: "float64 (1 / 50) = 5764607523034235 / 288230376151711744"
  using float64_eval [of 58 "1 / 50"] by (simp add: round_half_even_def)

lemma float64_value_2: "float64 (5764607523034235 / 288230376151711744) = 5764607523034235 / 288230376151711744"
  using float64_eval [of 58 "5764607523034235 / 288230376151711744"] by (simp add: round_half_even_def)

lemma float64_value_3: "float64 (5764607523034235 / 144115188075855872) = 5764607523034235 / 144115188075855872"
  using float64_eval [of 57 "5764607523034235 / 144115188075855872"] by (simp add: round_half_even_def)

lemma float64_value_4: "float64 (2 / 25) = 5764607523034235 / 72057594037927936"
  using float64_eval [of 56 "2 / 25"] by (simp add: round_half_even_def)

lemma float64_value_5: "float64 (5764607523034235 / 72057594037927936) = 5764607523034235 / 72057594037927936"
  using float64_eval [of 56 "5764607523034235 / 72057594037927936"] by (simp add: round_half_even_def)

lemma float64_value_6: "float64 (1 / 10) = 3602879701896397 / 36028797018963968"
  using float64_eval [of 56 "1 / 10"] by (simp add: round_half_even_def)

lemma float64_value_7: "float64 (28823037615171175 / 288230376151711744) = 3602879701896397 / 36028797018963968"
  using float64_eval [of 56 "28823037615171175 / 288230376151711744"] by (simp add: round_half_even_def)

lemma float64_value_8: "float64 (3602879701896397 / 36028797018963968) = 3602879701896397 / 36028797018963968"
  using float64_eval [of 56 "3602879701896397 / 36028797018963968"] by (simp add: round_half_even_def)

lemma float64_value_9: "float64 (17293822569102705 / 144115188075855872) = 1080863910568919 / 9007199254740992"
  using float64_eval [of 56 "17293822569102705 / 144115188075855872"] by (simp add: round_half_even_def)

lemma float64_value_10: "float64 (- (5044031582654955 / 36028797018963968)) = - (5044031582654955 / 36028797018963968)"
  using float64_eval [of 55 "- (5044031582654955 / 36028797018963968)"] by (simp add: round_half_even_def)

lemma float64_value_11: "float64 (1 / 5) = 3602879701896397 / 18014398509481984"
  using float64_eval [of 55 "1 / 5"] by (simp add: round_half_even_def)

lemma float64_value_12: "float64 (1080863910568919 / 4503599627370496) = 1080863910568919 / 4503599627370496"
  using float64_eval [of 55 "1080863910568919 / 4503599627370496"] by (simp add: round_half_even_def)

lemma float64_value_13: "float64 1 = 1"
  using float64_eval [of 52 1] by (simp add: round_half_even_def)

lemma float64_value_14: "float64 (41793404541998205 / 36028797018963968) = 326510972984361 / 281474976710656"
  using float64_eval [of 52 "41793404541998205 / 36028797018963968"] by (simp add: round_half_even_def)

lemma float64_value_15: "float64 (13 / 10) = 5854679515581645 / 4503599627370496"
  using float64_eval [of 52 "13 / 10"] by (simp add: round_half_even_def)

lemma float64_value_16: "float64 (5854679515581645 / 4503599627370496) = 5854679515581645 / 4503599627370496"
  using float64_eval [of 52 "5854679515581645 / 4503599627370496"] by (simp add: round_half_even_def)

lemma float64_value_17: "float64 2 = 2"
  using float64_eval [of 51 2] by (simp add: round_half_even_def)

lemma float64_value_18: "float64 (11 / 5) = 2476979795053773 / 1125899906842624"
  using float64_eval [of 51 "11 / 5"] by (simp add: round_half_even_def)

lemma float64_value_19: "float64 (2476979795053773 / 1125899906842624) = 2476979795053773 / 1125899906842624"
  using float64_eval [of 51 "2476979795053773 / 1125899906842624"] by (simp add: round_half_even_def)

lemma float64_value_20: "float64 (41433116571808563 / 18014398509481984) = 2589569785738035 / 1125899906842624"
  using float64_eval [of 51 "41433116571808563 / 18014398509481984"] by (simp add: round_half_even_def)

lemma float64_value_21: "float64 (23 / 10) = 2589569785738035 / 1125899906842624"
  using float64_eval [of 51 "23 / 10"] by (simp add: round_half_even_def)

lemma float64_value_22: "float64 (59 / 25) = 5314247560297185 / 2251799813685248"
  using float64_eval [of 51 "59 / 25"] by (simp add: round_half_even_def)

lemma float64_value_23: "float64 (85027960964754965 / 36028797018963968) = 5314247560297185 / 2251799813685248"
  using float64_eval [of 51 "85027960964754965 / 36028797018963968"] by (simp add: round_half_even_def)

lemma float64_value_24: "float64 (5 / 2) = 5 / 2"
  using float64_eval [of 51 "5 / 2"] by (simp add: round_half_even_def)

lemma float64_value_25: "float64 (13 / 5) = 5854679515581645 / 2251799813685248"
  using float64_eval [of 51 "13 / 5"] by (simp add: round_half_even_def)

lemma float64_value_26: "float64 (93674872249306317 / 36028797018963968) = 5854679515581645 / 2251799813685248"
  using float64_eval [of 51 "93674872249306317 / 36028797018963968"] by (simp add: round_half_even_def)

lemma float64_value_27: "float64 (5854679515581645 / 2251799813685248) = 5854679515581645 / 2251799813685248"
  using float64_eval [of 51 "5854679515581645 / 2251799813685248"] by (simp add: round_half_even_def)

lemma float64_value_28: "float64 (27 / 10) = 3039929748475085 / 1125899906842624"
  using float64_eval [of 51 "27 / 10"] by (simp add: round_half_even_def)

lemma float64_value_29: "float64 (97277751951202717 / 36028797018963968) = 3039929748475085 / 1125899906842624"
  using float64_eval [of 51 "97277751951202717 / 36028797018963968"] by (simp add: round_half_even_def)

lemma float64_value_30: "float64 6 = 6"
  using float64_eval [of 50 6] by (simp add: round_half_even_def)

lemma float64_value_31: "float64 (17564038546744935 / 2251799813685248) = 2195504818343117 / 281474976710656"
  using float64_eval [of 50 "17564038546744935 / 2251799813685248"] by (simp add: round_half_even_def)

lemma float64_value_32: "float64 25 = 25"
  using float64_eval [of 48 25] by (simp add: round_half_even_def)

lemma float64_value_33: "float64 (61924494876344325 / 1125899906842624) = 7740561859543041 / 140737488355328"
  using float64_eval [of 47 "61924494876344325 / 1125899906842624"] by (simp add: round_half_even_def)

lemmas float64_values =
  float64_value_1 float64_value_2 float64_value_3 float64_value_4 float64_value_5
  float64_value_6 float64_value_7 float64_value_8 float64_value_9 float64_value_10
  float64_value_11 float64_value_12 float64_value_13 float64_value_14 float64_value_15
  float64_value_16 float64_value_17 float64_value_18 float64_value_19 float64_value_20
  float64_value_21 float64_value_22 float64_value_23 float64_value_24 float64_value_25
  float64_value_26 float64_value_27 float64_value_28 float64_value_29 float64_value_30
  float64_value_31 float64_value_32 float64_value_33

lemma ease_factor_min_floor: "1.3 \<le> ease_factor_min"
  by (simp add: ease_factor_min_def float64_values)

subsection \<open>Helper facts\<close>

lemma datetime_add_Inr: "datetime_add now d = Inr t \<Longrightarrow> t = now + d"
  by (auto simp: datetime_add_def timedelta_days_def split: if_splits)

text \<open>The fail branch, and its ease factor against the real number \<open>max (e - 0.2) 1.3\<close>.\<close>

lemma calculate_next_review_fail_struct:
  assumes "grade < grade_threshold"
    and "iv = (if item_stage = NEW then learning_steps ! 0 / (24 * 60) else 1)"
  shows "calculate_next_review now interval ease_factor grade repetitions item_stage =
     (case datetime_add now iv of
        Inl e \<Rightarrow> Inl e
      | Inr next_date \<Rightarrow>
          Inr \<lparr>nr_next_interval = iv,
               nr_ease_factor = max (float64 (float64 ease_factor - float64 0.2)) ease_factor_min,
               nr_repetitions = 0, nr_stage = LEARNING, nr_next_review_date = next_date\<rparr>)"
  unfolding assms(2)
  by (cases "item_stage = NEW")
    (simp_all only: calculate_next_review_def Let_def assms(1) simp_thms if_True if_False
      sum.case prod.case)

lemma max_diff_le:
  fixes s x m m' :: real
  shows "\<bar>max s m' - max x m\<bar> \<le> max \<bar>s - x\<bar> \<bar>m' - m\<bar>"
  by (simp add: max_def abs_if)

lemma fail_ease_factor_error:
  "\<bar>max (float64 (float64 e - float64 0.2)) (float64 1.3) - max (e - 0.2) 1.3\<bar> \<le> (\<bar>e\<bar> + 1) / 2 ^ 51"
proof -
  define a where "a = float64 e"
  define s where "s = float64 (a - float64 0.2)"
  define d :: real where "d = 1 / 2 ^ 1075"
  define X where "X = \<bar>e\<bar>"
  define Y where "Y = \<bar>a - e\<bar>"
  define Z where "Z = \<bar>a - 3602879701896397 / 18014398509481984\<bar>"
  define W where "W = \<bar>s - (a - 3602879701896397 / 18014398509481984)\<bar>"
  have b: "float64 0.2 = 3602879701896397 / 18014398509481984"
    and m: "float64 1.3 = 5854679515581645 / 4503599627370496"
    by (simp_all add: float64_values)
  have d: "0 \<le> d" "d \<le> 1 / 1152921504606846976" by (simp_all add: d_def)
  have X: "0 \<le> X" by (simp add: X_def)
  have "\<bar>a - e\<bar> \<le> \<bar>e\<bar> / 2 ^ 53 + 1 / 2 ^ 1075"
    unfolding a_def by (rule float64_error)
  then have e1: "Y \<le> X / 9007199254740992 + d"
    unfolding d_def X_def Y_def by simp
  have "\<bar>s - (a - float64 0.2)\<bar> \<le> \<bar>a - float64 0.2\<bar> / 2 ^ 53 + 1 / 2 ^ 1075"
    unfolding s_def by (rule float64_error)
  then have e2: "W \<le> Z / 9007199254740992 + d"
    unfolding b d_def Z_def W_def by simp
  have z: "Z \<le> X + Y + 3602879701896397 / 18014398509481984"
    unfolding X_def Y_def Z_def by linarith
  have "\<bar>s - (e - 2 / 10)\<bar> \<le> W + Y + (3602879701896397 / 18014398509481984 - 2 / 10)"
    unfolding W_def Y_def by linarith
  also have "\<dots> \<le> (X + 1) / 2251799813685248"
    using e1 e2 z d X by argo
  finally have s: "\<bar>s - (e - 2 / 10)\<bar> \<le> (X + 1) / 2251799813685248" .
  have m': "\<bar>5854679515581645 / 4503599627370496 - 13 / 10 :: real\<bar> \<le> (X + 1) / 2251799813685248"
    using X by simp
  have "\<bar>max s (5854679515581645 / 4503599627370496) - max (e - 2 / 10) (13 / 10)\<bar>
      \<le> max \<bar>s - (e - 2 / 10)\<bar> \<bar>5854679515581645 / 4503599627370496 - 13 / 10\<bar>"
    by (rule max_diff_le)
  also have "\<dots> \<le> (X + 1) / 2251799813685248"
    using s m' by simp
  finally have "\<bar>max s (float64 1.3) - max (e - 0.2) 1.3\<bar> \<le> (\<bar>e\<bar> + 1) / 2 ^ 51"
    unfolding X_def m by simp
  then show ?thesis unfolding s_def a_def .
qed

text \<open>The review branch: what it computes, and when it returns.\<close>

lemma calculate_next_review_review_struct:
  assumes "\<not> grade < grade_threshold" and "item_stage \<noteq> NEW" and "item_stage \<noteq> LEARNING"
    and "(if repetitions + 1 = 1 then Inr 1
          else if repetitions + 1 = 2 then Inr 6
          else (case float_of interval of
                  Inl e \<Rightarrow> Inl e
                | Inr i \<Rightarrow> math_ceil (float64 (i * float64 ease_factor)))) = Inr base"
    and "(if grade = 5
          then (case float_of (real_of_int base) of
                  Inl e \<Rightarrow> Inl e
                | Inr i \<Rightarrow> math_ceil (float64 (i * easy_bonus)))
          else Inr base) = Inr iv"
    and "float_of (real_of_int (5 - grade)) = Inr d"
  shows "calculate_next_review now interval ease_factor grade repetitions item_stage =
     (case datetime_add now (real_of_int iv) of
        Inl e \<Rightarrow> Inl e
      | Inr next_date \<Rightarrow>
          Inr \<lparr>nr_next_interval = real_of_int iv,
               nr_ease_factor = max (float64 (float64 ease_factor +
                   float64 (float64 0.1 -
                     float64 (d * float64 (float64 0.08 + float64 (d * float64 0.02))))))
                 ease_factor_min,
               nr_repetitions = repetitions + 1,
               nr_stage = (if real_of_int iv \<ge> mastery_threshold then MASTERED else REVIEW),
               nr_next_review_date = next_date\<rparr>)"
  by (simp only: calculate_next_review_def Let_def assms if_False sum.case prod.case)

lemma calculate_next_review_review_Inr:
  assumes "\<not> grade < grade_threshold" and "item_stage \<noteq> NEW" and "item_stage \<noteq> LEARNING"
    and "calculate_next_review now interval ease_factor grade repetitions item_stage = Inr res"
  shows "\<exists>base iv.
     (if repetitions + 1 = 1 then Inr 1
      else if repetitions + 1 = 2 then Inr 6
      else (case float_of interval of
              Inl e \<Rightarrow> Inl e
            | Inr i \<Rightarrow> math_ceil (float64 (i * float64 ease_factor)))) = Inr base \<and>
     (if grade = 5
      then (case float_of (real_of_int base) of
              Inl e \<Rightarrow> Inl e
            | Inr i \<Rightarrow> math_ceil (float64 (i * easy_bonus)))
      else Inr base) = Inr iv \<and>
     nr_next_interval res = real_of_int iv \<and> nr_repetitions res = repetitions + 1 \<and>
     nr_stage res = (if real_of_int iv \<ge> mastery_threshold then MASTERED else REVIEW) \<and>
     (\<exists>x. nr_ease_factor res = max x ease_factor_min)"
proof -
  define B where "B = (if repetitions + 1 = 1 then Inr 1
      else if repetitions + 1 = 2 then Inr 6
      else (case float_of interval of
              Inl e \<Rightarrow> Inl e
            | Inr i \<Rightarrow> math_ceil (float64 (i * float64 ease_factor))))"
  define I where "I = (\<lambda>base. if grade = 5
      then (case float_of (real_of_int base) of
              Inl e \<Rightarrow> Inl e
            | Inr i \<Rightarrow> math_ceil (float64 (i * easy_bonus)))
      else Inr base)"
  define D where "D = float_of (real_of_int (5 - grade))"
  define E where "E = (\<lambda>d. float64 (float64 ease_factor +
      float64 (float64 0.1 - float64 (d * float64 (float64 0.08 + float64 (d * float64 0.02))))))"
  have c: "calculate_next_review now interval ease_factor grade repetitions item_stage =
     (case (case B of
              Inl e \<Rightarrow> Inl e
            | Inr base \<Rightarrow>
                (case I base of
                   Inl e \<Rightarrow> Inl e
                 | Inr iv \<Rightarrow>
                     (case D of
                        Inl e \<Rightarrow> Inl e
                      | Inr d \<Rightarrow>
                          Inr (real_of_int iv, max (E d) ease_factor_min, repetitions + 1,
                               if real_of_int iv \<ge> mastery_threshold then MASTERED else REVIEW)))) of
        Inl e \<Rightarrow> Inl e
      | Inr (new_interval, new_ease_factor, new_repetitions, new_stage) \<Rightarrow>
          (case datetime_add now new_interval of
             Inl e \<Rightarrow> Inl e
           | Inr next_date \<Rightarrow>
               Inr \<lparr>nr_next_interval = new_interval, nr_ease_factor = new_ease_factor,
                    nr_repetitions = new_repetitions, nr_stage = new_stage,
                    nr_next_review_date = next_date\<rparr>))"
    unfolding B_def I_def D_def E_def
    by (simp only: calculate_next_review_def Let_def assms(1,2,3) if_False)
  from assms(4) have "\<exists>base. B = Inr base"
    unfolding c by (cases B) simp_all
  then obtain base where base: "B = Inr base" by blast
  from assms(4) have "\<exists>iv. I base = Inr iv"
    unfolding c by (cases "I base") (simp_all add: base)
  then obtain iv where iv: "I base = Inr iv" by blast
  from assms(4) have "\<exists>d. D = Inr d"
    unfolding c by (cases D) (simp_all add: base iv)
  then obtain d where d: "D = Inr d" by blast
  from assms(4) have "nr_next_interval res = real_of_int iv \<and> nr_repetitions res = repetitions + 1 \<and>
     nr_stage res = (if real_of_int iv \<ge> mastery_threshold then MASTERED else REVIEW) \<and>
     nr_ease_factor res = max (E d) ease_factor_min"
    unfolding c by (cases "datetime_add now (real_of_int iv)") (auto simp: base iv d)
  with base iv show ?thesis unfolding B_def I_def by blast
qed

lemma calculate_next_review_ease_cases:
  assumes "calculate_next_review now interval ease_factor grade repetitions item_stage = Inr res"
  shows "(\<exists>x. nr_ease_factor res = max x ease_factor_min) \<or> nr_ease_factor res = ease_factor"
proof (cases "grade < grade_threshold")
  case True
  from assms have "nr_ease_factor res = max (float64 (float64 ease_factor - float64 0.2)) ease_factor_min"
    unfolding calculate_next_review_fail_struct [OF True refl]
    by (cases "datetime_add now (if item_stage = NEW then learning_steps ! 0 / (24 * 60) else 1)") auto
  then show ?thesis by blast
next
  case False
  show ?thesis
  proof (cases "item_stage = NEW \<or> item_stage = LEARNING")
    case True
    with False assms have "nr_ease_factor res = ease_factor"
      by (auto simp: calculate_next_review_def Let_def split: if_splits sum.splits option.splits)
    then show ?thesis by blast
  next
    case stage: False
    then have "item_stage \<noteq> NEW" "item_stage \<noteq> LEARNING" by simp_all
    from calculate_next_review_review_Inr [OF False this assms] show ?thesis by blast
  qed
qed

lemma calculate_next_review_ease_floor_step:
  assumes "1.3 \<le> ease_factor"
    and "calculate_next_review now interval ease_factor grade repetitions item_stage = Inr res"
  shows "1.3 \<le> nr_ease_factor res"
proof -
  from calculate_next_review_ease_cases [OF assms(2)]
  consider x where "nr_ease_factor res = max x ease_factor_min" | "nr_ease_factor res = ease_factor"
    by blast
  then show ?thesis
  proof cases
    case 1
    with ease_factor_min_floor show ?thesis by simp
  next
    case 2
    with assms(1) show ?thesis by simp
  qed
qed

lemma update_difficulty_level_ease [simp]:
  "pr_ease_factor (update_difficulty_level p) = pr_ease_factor p"
  by (simp add: update_difficulty_level_def Let_def)

lemma update_progress_ease_floor:
  assumes "pr_ease_factor p = Some e" and "1.3 \<le> e"
    and "update_progress now p grade rt = Inr p'"
  shows "\<exists>e'. pr_ease_factor p' = Some e' \<and> 1.3 \<le> e'"
proof -
  from assms(3) obtain st iv reps res where
    calc: "calculate_next_review now iv e grade reps st = Inr res"
    and p': "pr_ease_factor p' = Some (nr_ease_factor res)"
    using assms(1)
    by (auto simp: update_progress_def dict_item_def Let_def split: sum.splits option.splits)
  from calculate_next_review_ease_floor_step [OF assms(2) calc] p' show ?thesis by simp
qed

lemma review_sequence_ease_floor:
  "pr_ease_factor p = Some e \<Longrightarrow> 1.3 \<le> e \<Longrightarrow>
   \<exists>e'. pr_ease_factor (review_sequence p events) = Some e' \<and> 1.3 \<le> e'"
proof (induction events arbitrary: p e)
  case Nil
  then show ?case by simp
next
  case (Cons ev events)
  obtain now grade rt where ev: "ev = (now, grade, rt)" by (cases ev) auto
  show ?case
  proof (cases "update_progress now p grade rt")
    case (Inl err)
    with Cons ev show ?thesis by simp
  next
    case (Inr p')
    from update_progress_ease_floor [OF Cons.prems(1) Cons.prems(2) Inr]
    obtain e' where "pr_ease_factor p' = Some e'" "1.3 \<le> e'" by blast
    from Cons.IH [OF this] Inr ev show ?thesis by simp
  qed
qed

lemma calculate_next_review_review_fields:
  assumes "3 \<le> grade" and "item_stage = REVIEW \<or> item_stage = MASTERED"
    and "base = (if repetitions + 1 = 1 then 1 else if repetitions + 1 = 2 then 6
                 else \<lceil>float64 (float64 interval * float64 ease_factor)\<rceil>)"
    and "iv = (if grade = 5 then \<lceil>float64 (float64 (real_of_int base) * float64 1.3)\<rceil> else base)"
    and "calculate_next_review now interval ease_factor grade repetitions item_stage = Inr res"
  shows "nr_next_interval res = real_of_int iv" and "nr_repetitions res = repetitions + 1"
    and "nr_stage res = (if 21 \<le> iv then MASTERED else REVIEW)"
proof -
  from assms(1,2) have b: "\<not> grade < grade_threshold" "item_stage \<noteq> NEW" "item_stage \<noteq> LEARNING"
    by (auto simp: grade_threshold_def)
  from calculate_next_review_review_Inr [OF b assms(5)] obtain base' iv' where
    base': "(if repetitions + 1 = 1 then Inr 1
      else if repetitions + 1 = 2 then Inr 6
      else (case float_of interval of
              Inl e \<Rightarrow> Inl e
            | Inr i \<Rightarrow> math_ceil (float64 (i * float64 ease_factor)))) = Inr base'"
    and iv': "(if grade = 5
      then (case float_of (real_of_int base') of
              Inl e \<Rightarrow> Inl e
            | Inr i \<Rightarrow> math_ceil (float64 (i * easy_bonus)))
      else Inr base') = Inr iv'"
    and res: "nr_next_interval res = real_of_int iv'" "nr_repetitions res = repetitions + 1"
      "nr_stage res = (if real_of_int iv' \<ge> mastery_threshold then MASTERED else REVIEW)"
    by blast
  from base' have "base' = base"
    unfolding assms(3)
    by (auto split: if_splits sum.splits dest!: float_of_Inr math_ceil_Inr)
  with iv' have "iv' = iv"
    unfolding assms(4) easy_bonus_def
    by (auto split: if_splits sum.splits dest!: float_of_Inr math_ceil_Inr)
  with res show "nr_next_interval res = real_of_int iv" and "nr_repetitions res = repetitions + 1"
    and "nr_stage res = (if 21 \<le> iv then MASTERED else REVIEW)"
    by (simp_all add: mastery_threshold_def)
qed

lemma calculate_next_review_review_returns:
  assumes "3 \<le> grade" and "item_stage = REVIEW \<or> item_stage = MASTERED"
    and "base = (if repetitions + 1 = 1 then 1 else if repetitions + 1 = 2 then 6
                 else \<lceil>float64 (float64 interval * float64 ease_factor)\<rceil>)"
    and "iv = (if grade = 5 then \<lceil>float64 (float64 (real_of_int base) * float64 1.3)\<rceil> else base)"
    and "0 \<le> now" and "now < datetime_end"
    and "0 \<le> now + real_of_int iv" and "now + real_of_int iv < datetime_end"
    and "\<bar>interval\<bar> \<le> 2 ^ 500" and "\<bar>ease_factor\<bar> \<le> 2 ^ 500" and "grade \<le> 2 ^ 500"
  shows "\<exists>res. calculate_next_review now interval ease_factor grade repetitions item_stage = Inr res"
proof -
  from assms(1,2) have b: "\<not> grade < grade_threshold" "item_stage \<noteq> NEW" "item_stage \<noteq> LEARNING"
    by (auto simp: grade_threshold_def)
  have fi: "float_of interval = Inr (float64 interval)"
    using float_of_returns [of 500 interval] assms(9) by simp
  have "\<bar>float64 interval * float64 ease_factor\<bar> \<le> 2 ^ (502 + 502)"
    using float64_bound_power [of interval 500] float64_bound_power [of ease_factor 500] assms(9,10)
    by (intro mult_bound_power) simp_all
  then have p1: "\<bar>float64 (float64 interval * float64 ease_factor)\<bar> \<le> 2 ^ 1006"
    using float64_bound_power [of "float64 interval * float64 ease_factor" 1004] by simp
  then have c1: "math_ceil (float64 (float64 interval * float64 ease_factor)) =
      Inr \<lceil>float64 (float64 interval * float64 ease_factor)\<rceil>"
    using math_ceil_returns [of 1006] by simp
  have base: "(if repetitions + 1 = 1 then Inr 1
      else if repetitions + 1 = 2 then Inr 6
      else (case float_of interval of
              Inl e \<Rightarrow> Inl e
            | Inr i \<Rightarrow> math_ceil (float64 (i * float64 ease_factor)))) = Inr base"
    unfolding assms(3) fi by (simp add: c1)
  have "\<bar>real_of_int \<lceil>float64 (float64 interval * float64 ease_factor)\<rceil>\<bar> \<le> 2 ^ 1007"
    using ceiling_bound_power [OF p1] by simp
  then have bb: "\<bar>real_of_int base\<bar> \<le> 2 ^ 1007"
    unfolding assms(3) by simp
  have fb: "float_of (real_of_int base) = Inr (float64 (real_of_int base))"
    using float_of_returns [of 1007 "real_of_int base"] bb by simp
  have "\<bar>float64 (1.3 :: real)\<bar> \<le> 2 ^ 1"
    by (simp add: float64_values)
  then have "\<bar>float64 (real_of_int base) * float64 1.3\<bar> \<le> 2 ^ (1009 + 1)"
    using float64_bound_power [OF bb] by (intro mult_bound_power) simp_all
  then have "\<bar>float64 (float64 (real_of_int base) * float64 1.3)\<bar> \<le> 2 ^ 1012"
    using float64_bound_power [of "float64 (real_of_int base) * float64 1.3" 1010] by simp
  then have c2: "math_ceil (float64 (float64 (real_of_int base) * float64 1.3)) =
      Inr \<lceil>float64 (float64 (real_of_int base) * float64 1.3)\<rceil>"
    using math_ceil_returns [of 1012] by simp
  have iv: "(if grade = 5
      then (case float_of (real_of_int base) of
              Inl e \<Rightarrow> Inl e
            | Inr i \<Rightarrow> math_ceil (float64 (i * easy_bonus)))
      else Inr base) = Inr iv"
    unfolding assms(4) fb easy_bonus_def by (simp add: c2)
  have "\<bar>real_of_int (5 - grade)\<bar> \<le> 2 ^ 501"
    using assms(1,11) by simp
  then have d: "float_of (real_of_int (5 - grade)) = Inr (float64 (real_of_int (5 - grade)))"
    using float_of_returns [of 501 "real_of_int (5 - grade)"] by simp
  show ?thesis
    unfolding calculate_next_review_review_struct [OF b base iv d]
    using assms(5-8) by (simp add: datetime_add_def timedelta_days_def datetime_end_def)
qed

lemma calculate_next_review_first_two_reviews:
  assumes "3 \<le> grade1" and "3 \<le> grade2" and "item_stage = REVIEW \<or> item_stage = MASTERED"
    and c1: "calculate_next_review now1 interval ease_factor grade1 0 item_stage = Inr r1"
    and c2: "calculate_next_review now2 (nr_next_interval r1) (nr_ease_factor r1) grade2
              (nr_repetitions r1) (nr_stage r1) = Inr r2"
  shows "nr_next_interval r1 = (if grade1 = 5 then 2 else 1) \<and>
         nr_next_interval r2 = (if grade2 = 5 then 8 else 6)"
proof -
  have two: "\<lceil>float64 (float64 1 * float64 1.3)\<rceil> = 2"
    and eight: "\<lceil>float64 (float64 6 * float64 1.3)\<rceil> = 8"
    by (simp_all add: float64_values)
  have "nr_next_interval r1 =
      real_of_int (if grade1 = 5 then \<lceil>float64 (float64 (real_of_int 1) * float64 1.3)\<rceil> else 1)"
    using calculate_next_review_review_fields(1) [OF assms(1) assms(3) _ refl c1, of 1] by simp
  then have i1: "nr_next_interval r1 = (if grade1 = 5 then 2 else 1)"
    using two by simp
  have reps: "nr_repetitions r1 = 1"
    using calculate_next_review_review_fields(2) [OF assms(1) assms(3) refl refl c1] by simp
  have "nr_stage r1 = (if (21::int) \<le> (if grade1 = 5 then \<lceil>float64 (float64 (real_of_int 1) * float64 1.3)\<rceil> else 1)
      then MASTERED else REVIEW)"
    using calculate_next_review_review_fields(3) [OF assms(1) assms(3) _ refl c1, of 1] by simp
  then have st: "nr_stage r1 = REVIEW \<or> nr_stage r1 = MASTERED" using two by simp
  have "nr_next_interval r2 =
      real_of_int (if grade2 = 5 then \<lceil>float64 (float64 (real_of_int 6) * float64 1.3)\<rceil> else 6)"
    using calculate_next_review_review_fields(1) [OF assms(2) st _ refl c2, of 6] reps by simp
  then have "nr_next_interval r2 = (if grade2 = 5 then 8 else 6)"
    using eight by simp
  with i1 show ?thesis by simp
qed

lemma last_five: "drop (length h - 5) h = rev (take 5 (rev h))"
  by (simp add: take_rev)

text \<open>What evaluates a call at given numbers.\<close>

lemmas calculate_next_review_eval =
  calculate_next_review_def Let_def grade_threshold_def easy_bonus_def mastery_threshold_def
  ease_factor_min_def learning_steps_def graduation_interval_def datetime_add_def
  timedelta_days_def datetime_end_def float_of_def math_ceil_def float64_zero float64_values

subsection \<open>The ease factor never drops below 1.3\<close>

text \<open>
  Claim C1. For every ease factor \<open>\<ge> 1.3\<close> and every grade in \<open>0..5\<close>, the ease factor
  that \<^verbatim>\<open>calculate_next_review\<close> returns is \<open>\<ge> 1.3\<close>; and after any finite sequence of
  reviews of a record made by \<^verbatim>\<open>initialize_item\<close>, whatever the grades, clock readings and
  response times (calls that raise included: they leave the record as it was), the
  record has an ease factor and it is \<open>\<ge> 1.3\<close>.
\<close>

theorem ease_factor_floor_invariant:
  "(1.3 \<le> ease_factor \<and> 0 \<le> grade \<and> grade \<le> 5 \<and>
    calculate_next_review now interval ease_factor grade repetitions item_stage = Inr res
      \<longrightarrow> 1.3 \<le> nr_ease_factor res) \<and>
   (\<exists>e. pr_ease_factor (review_sequence (initialize_item now0 item_id item_type content) events) = Some e
      \<and> 1.3 \<le> e)"
proof
  show "1.3 \<le> ease_factor \<and> 0 \<le> grade \<and> grade \<le> 5 \<and>
    calculate_next_review now interval ease_factor grade repetitions item_stage = Inr res
      \<longrightarrow> 1.3 \<le> nr_ease_factor res"
    using calculate_next_review_ease_floor_step by blast
next
  have "pr_ease_factor (initialize_item now0 item_id item_type content) = Some 2.5"
    by (simp add: initialize_item_def ease_factor_default_def)
  from review_sequence_ease_floor [OF this]
  show "\<exists>e. pr_ease_factor (review_sequence (initialize_item now0 item_id item_type content) events) = Some e
      \<and> 1.3 \<le> e"
    by simp
qed

text \<open>
  At the floor, grade 3 in the review stage would lower the ease factor to 1.16 and is
  clamped to \<^verbatim>\<open>ease_factor_min\<close>, the double of 1.3; a fresh item graded 4 and then 2
  ends with the double of 2.3 as its ease factor.
\<close>

theorem ease_factor_floor_invariant_witness:
  "(1.3 :: real) \<le> 1.3 \<and> (0 :: int) \<le> 3 \<and> (3 :: int) \<le> 5 \<and>
   calculate_next_review 739000 6 1.3 3 4 REVIEW =
     Inr \<lparr>nr_next_interval = 8, nr_ease_factor = float64 1.3, nr_repetitions = 5, nr_stage = REVIEW,
          nr_next_review_date = 739008\<rparr> \<and>
   (1.3 :: real) \<le> nr_ease_factor
     \<lparr>nr_next_interval = 8, nr_ease_factor = float64 1.3, nr_repetitions = 5, nr_stage = REVIEW,
      nr_next_review_date = 739008\<rparr> \<and>
   pr_ease_factor (review_sequence (initialize_item 739000 ''w1'' (Inl VOCABULARY) None)
     [(739000, 4, None), (739001, 2, None)]) = Some (float64 2.3)"
  using ease_factor_floor_invariant
    [where ease_factor = "1.3" and grade = 3 and now = 739000 and interval = 6
       and repetitions = 4 and item_stage = REVIEW and now0 = 739000 and item_id = "''w1''"
       and item_type = "Inl VOCABULARY" and content = None
       and events = "[(739000, 4, None), (739001, 2, None)]"]
  by (simp add: initialize_item_def update_progress_def update_difficulty_level_def
      dict_get_def dict_item_def LearningStage_of_def ease_factor_default_def
      calculate_next_review_eval)

subsection \<open>A failed recall\<close>

text \<open>
  Claim C4. For every record, in any stage, and every grade below 3: whenever
  \<^verbatim>\<open>calculate_next_review\<close> returns, the stage is \<open>LEARNING\<close>, the repetitions are 0, the
  ease factor is \<^verbatim>\<open>max(ease_factor - 0.2, 1.3)\<close> as the doubles compute it, which is
  within \<open>(|ease_factor| + 1) / 2 ^ 51\<close> of the real number \<open>max (ease_factor - 0.2) 1.3\<close>,
  and the interval is one minute in days (\<open>1 / (24 * 60)\<close>) for a \<open>NEW\<close> item and one
  day otherwise. It does return whenever the clock is a day or more before the end of
  the calendar (the only way the call can raise is the date arithmetic of
  \<^verbatim>\<open>next_review_date\<close>).
\<close>

theorem calculate_next_review_fail_grade:
  "grade < 3 \<Longrightarrow>
   (\<forall>res. calculate_next_review now interval ease_factor grade repetitions item_stage = Inr res \<longrightarrow>
      nr_stage res = LEARNING \<and> nr_repetitions res = 0 \<and>
      nr_ease_factor res = max (float64 (float64 ease_factor - float64 0.2)) (float64 1.3) \<and>
      \<bar>nr_ease_factor res - max (ease_factor - 0.2) 1.3\<bar> \<le> (\<bar>ease_factor\<bar> + 1) / 2 ^ 51 \<and>
      nr_next_interval res = (if item_stage = NEW then 1 / (24 * 60) else 1)) \<and>
   (0 \<le> now \<and> now + 1 < datetime_end \<longrightarrow>
      (\<exists>res. calculate_next_review now interval ease_factor grade repetitions item_stage = Inr res))"
proof -
  assume "grade < 3"
  then have g: "grade < grade_threshold" by (simp add: grade_threshold_def)
  define iv :: real where "iv = (if item_stage = NEW then 1 / (24 * 60) else 1)"
  have iv: "iv = (if item_stage = NEW then learning_steps ! 0 / (24 * 60) else 1)"
    by (simp add: iv_def learning_steps_def)
  note c = calculate_next_review_fail_struct [OF g iv, of now interval ease_factor repetitions]
  have 1: "nr_stage res = LEARNING \<and> nr_repetitions res = 0 \<and>
      nr_ease_factor res = max (float64 (float64 ease_factor - float64 0.2)) (float64 1.3) \<and>
      nr_next_interval res = iv"
    if "calculate_next_review now interval ease_factor grade repetitions item_stage = Inr res" for res
    using that unfolding c ease_factor_min_def by (cases "datetime_add now iv") auto
  have 2: "\<exists>res. calculate_next_review now interval ease_factor grade repetitions item_stage = Inr res"
    if "0 \<le> now \<and> now + 1 < datetime_end"
    unfolding c using that
    by (simp add: iv_def datetime_add_def timedelta_days_def datetime_end_def)
  from 1 2 fail_ease_factor_error [of ease_factor] show ?thesis
    unfolding iv_def by simp
qed

theorem calculate_next_review_fail_grade_witness:
  "(2::int) < 3 \<and>
   (\<exists>res. calculate_next_review 739000 6 2.5 2 3 REVIEW = Inr res \<and>
      nr_stage res = LEARNING \<and> nr_repetitions res = 0 \<and> nr_ease_factor res = float64 2.3 \<and>
      \<bar>nr_ease_factor res - 2.3\<bar> \<le> (\<bar>2.5\<bar> + 1) / 2 ^ 51 \<and>
      nr_next_interval res = 1)"
  using calculate_next_review_fail_grade [of 2 739000 6 "2.5" 3 REVIEW]
  by (auto simp: datetime_end_def float64_values)


subsection \<open>A passing review of a graduated item\<close>

text \<open>
  Claim C3 says that for grade 5 the interval (1 day, 6 days or \<open>ceil(i * e)\<close>) is
  multiplied by the easy bonus 1.3, and that two successive passing reviews reaching
  repetition counts 1 and 2 give exactly 1 and 6 days. The source rounds the product
  up to whole days: two successive grade-5 reviews of an item in the review stage give
  2 and 8 days, not 1.3 and 7.8 and not 1 and 6.
\<close>

theorem calculate_next_review_easy_bonus_rounds_up:
  "calculate_next_review 739000 1 2.5 5 0 REVIEW =
     Inr \<lparr>nr_next_interval = 2, nr_ease_factor = float64 2.6, nr_repetitions = 1, nr_stage = REVIEW,
          nr_next_review_date = 739002\<rparr> \<and>
   calculate_next_review 739002 2 (float64 2.6) 5 1 REVIEW =
     Inr \<lparr>nr_next_interval = 8, nr_ease_factor = float64 2.7, nr_repetitions = 2, nr_stage = REVIEW,
          nr_next_review_date = 739010\<rparr> \<and>
   (2 :: real) \<noteq> 1 * easy_bonus \<and> (2 :: real) \<noteq> 1 \<and>
   (8 :: real) \<noteq> 6 * easy_bonus \<and> (8 :: real) \<noteq> 6"
  by (simp add: calculate_next_review_eval)

text \<open>
  Claim C3 as amended. For every passing grade (\<open>\<ge> 3\<close>) applied in stage \<open>REVIEW\<close> or
  \<open>MASTERED\<close> with prior repetition count \<open>r\<close>, interval \<open>i\<close> and ease factor \<open>e\<close>: the
  base interval is 1 day if \<open>r + 1 = 1\<close>, 6 days if \<open>r + 1 = 2\<close>, else the ceiling of the
  double-precision product of \<open>i\<close> and \<open>e\<close>; for grade 5 the returned interval is the
  ceiling of the double-precision product of the base and 1.3, otherwise the base; the
  repetitions are \<open>r + 1\<close>; the returned stage is \<open>MASTERED\<close> iff the returned interval
  is \<open>\<ge> 21\<close> days and \<open>REVIEW\<close> otherwise. The call returns whenever the next review
  date is inside the calendar and \<open>i\<close>, \<open>e\<close> and the grade are below \<open>2 ^ 500\<close> in
  magnitude. In particular two successive passing reviews from repetition count 0
  give 1 then 6 days for the grades 3 and 4, and 2 then 8 days for grade 5, whatever
  the ease factor.
\<close>

theorem calculate_next_review_pass_review:
  assumes "3 \<le> grade" and "item_stage = REVIEW \<or> item_stage = MASTERED"
    and "base = (if repetitions + 1 = 1 then 1 else if repetitions + 1 = 2 then 6
                 else \<lceil>float64 (float64 interval * float64 ease_factor)\<rceil>)"
    and "iv = (if grade = 5 then \<lceil>float64 (float64 (real_of_int base) * float64 1.3)\<rceil> else base)"
  shows "(\<forall>res. calculate_next_review now interval ease_factor grade repetitions item_stage = Inr res \<longrightarrow>
            nr_next_interval res = real_of_int iv \<and> nr_repetitions res = repetitions + 1 \<and>
            nr_stage res = (if 21 \<le> iv then MASTERED else REVIEW)) \<and>
         (0 \<le> now \<and> now < datetime_end \<and>
          0 \<le> now + real_of_int iv \<and> now + real_of_int iv < datetime_end \<and>
          \<bar>interval\<bar> \<le> 2 ^ 500 \<and> \<bar>ease_factor\<bar> \<le> 2 ^ 500 \<and> grade \<le> 2 ^ 500 \<longrightarrow>
            (\<exists>res. calculate_next_review now interval ease_factor grade repetitions item_stage = Inr res)) \<and>
         (\<forall>r1 r2 grade2 now2.
            repetitions = 0 \<and> 3 \<le> grade2 \<and>
            calculate_next_review now interval ease_factor grade repetitions item_stage = Inr r1 \<and>
            calculate_next_review now2 (nr_next_interval r1) (nr_ease_factor r1) grade2
              (nr_repetitions r1) (nr_stage r1) = Inr r2 \<longrightarrow>
            nr_next_interval r1 = (if grade = 5 then 2 else 1) \<and>
            nr_next_interval r2 = (if grade2 = 5 then 8 else 6))"
proof (intro conjI)
  show "\<forall>res. calculate_next_review now interval ease_factor grade repetitions item_stage = Inr res \<longrightarrow>
            nr_next_interval res = real_of_int iv \<and> nr_repetitions res = repetitions + 1 \<and>
            nr_stage res = (if 21 \<le> iv then MASTERED else REVIEW)"
    using calculate_next_review_review_fields [OF assms] by blast
  show "0 \<le> now \<and> now < datetime_end \<and>
          0 \<le> now + real_of_int iv \<and> now + real_of_int iv < datetime_end \<and>
          \<bar>interval\<bar> \<le> 2 ^ 500 \<and> \<bar>ease_factor\<bar> \<le> 2 ^ 500 \<and> grade \<le> 2 ^ 500 \<longrightarrow>
            (\<exists>res. calculate_next_review now interval ease_factor grade repetitions item_stage = Inr res)"
    using calculate_next_review_review_returns [OF assms] by blast
  show "\<forall>r1 r2 grade2 now2.
            repetitions = 0 \<and> 3 \<le> grade2 \<and>
            calculate_next_review now interval ease_factor grade repetitions item_stage = Inr r1 \<and>
            calculate_next_review now2 (nr_next_interval r1) (nr_ease_factor r1) grade2
              (nr_repetitions r1) (nr_stage r1) = Inr r2 \<longrightarrow>
            nr_next_interval r1 = (if grade = 5 then 2 else 1) \<and>
            nr_next_interval r2 = (if grade2 = 5 then 8 else 6)"
    using calculate_next_review_first_two_reviews [OF assms(1) _ assms(2)] by blast
qed

text \<open>
  An interval of 25 days at ease factor 2.2, graded 4: the double of 2.2 is a little
  above 2.2, the double product a little above 55, and the new interval is 56 days,
  where the product of the real numbers 25 and 2.2 has ceiling 55. And the first two
  reviews of a graduated item, graded 4 and 3.
\<close>

theorem calculate_next_review_pass_review_witness:
  "(3::int) \<le> 4 \<and> (REVIEW = REVIEW \<or> REVIEW = MASTERED) \<and>
   (0 :: real) \<le> 739000 \<and> (739000 :: real) < datetime_end \<and>
   (0 :: real) \<le> 739000 + 56 \<and> (739000 :: real) + 56 < datetime_end \<and>
   \<bar>25 :: real\<bar> \<le> 2 ^ 500 \<and> \<bar>2.2 :: real\<bar> \<le> 2 ^ 500 \<and> (4 :: int) \<le> 2 ^ 500 \<and>
   (\<exists>res. calculate_next_review 739000 25 2.2 4 3 REVIEW = Inr res \<and>
      nr_next_interval res = 56 \<and> nr_repetitions res = 4 \<and> nr_stage res = MASTERED) \<and>
   \<lceil>25 * 2.2 :: real\<rceil> = 55 \<and>
   (\<exists>r1 r2. calculate_next_review 739000 1 2.5 4 0 REVIEW = Inr r1 \<and>
      calculate_next_review 739001 (nr_next_interval r1) (nr_ease_factor r1) 3
         (nr_repetitions r1) (nr_stage r1) = Inr r2 \<and>
      nr_next_interval r1 = 1 \<and> nr_next_interval r2 = 6)"
proof -
  have e2: "calculate_next_review 739000 1 2.5 4 0 REVIEW =
      Inr \<lparr>nr_next_interval = 1, nr_ease_factor = 2.5, nr_repetitions = 1, nr_stage = REVIEW,
           nr_next_review_date = 739001\<rparr>"
    by (simp add: calculate_next_review_eval)
  have e3: "calculate_next_review 739001 1 2.5 3 1 REVIEW =
      Inr \<lparr>nr_next_interval = 6, nr_ease_factor = float64 2.36, nr_repetitions = 2, nr_stage = REVIEW,
           nr_next_review_date = 739007\<rparr>"
    by (simp add: calculate_next_review_eval)
  have g: "(3 :: int) \<le> 4" and st: "REVIEW = REVIEW \<or> REVIEW = MASTERED"
    by simp_all
  have b1: "(56 :: int) = (if (3 :: int) + 1 = 1 then 1 else if (3 :: int) + 1 = 2 then 6
                 else \<lceil>float64 (float64 25 * float64 2.2)\<rceil>)"
    and i1: "(56 :: int) = (if (4 :: int) = 5
                 then \<lceil>float64 (float64 (real_of_int 56) * float64 1.3)\<rceil> else 56)"
    and b2: "(1 :: int) = (if (0 :: int) + 1 = 1 then 1 else if (0 :: int) + 1 = 2 then 6
                 else \<lceil>float64 (float64 1 * float64 2.5)\<rceil>)"
    and i2: "(1 :: int) = (if (4 :: int) = 5
                 then \<lceil>float64 (float64 (real_of_int 1) * float64 1.3)\<rceil> else 1)"
    by (simp_all add: float64_values)
  note t = calculate_next_review_pass_review [OF g st b1 i1, of 739000]
  have "\<exists>res. calculate_next_review 739000 25 2.2 4 3 REVIEW = Inr res"
    by (rule t [THEN conjunct2, THEN conjunct1, rule_format]) (simp add: datetime_end_def)
  then obtain res where r: "calculate_next_review 739000 25 2.2 4 3 REVIEW = Inr res" by blast
  from t [THEN conjunct1, rule_format, OF r]
  have "nr_next_interval res = 56 \<and> nr_repetitions res = 4 \<and> nr_stage res = MASTERED"
    by simp
  with r have w1: "\<exists>res. calculate_next_review 739000 25 2.2 4 3 REVIEW = Inr res \<and>
      nr_next_interval res = 56 \<and> nr_repetitions res = 4 \<and> nr_stage res = MASTERED"
    by blast
  note t2 = calculate_next_review_pass_review [OF g st b2 i2, of 739000, THEN conjunct2,
      THEN conjunct2, rule_format, of 3 _ 739001]
  have "nr_next_interval \<lparr>nr_next_interval = 1, nr_ease_factor = 2.5, nr_repetitions = 1,
          nr_stage = REVIEW, nr_next_review_date = 739001\<rparr> = (if (4 :: int) = 5 then 2 else 1) \<and>
        nr_next_interval \<lparr>nr_next_interval = 6, nr_ease_factor = float64 2.36, nr_repetitions = 2,
          nr_stage = REVIEW, nr_next_review_date = 739007\<rparr> = (if (3 :: int) = 5 then 8 else 6)"
    apply (rule t2)
    apply (simp only: next_review.select_convs)
    apply (simp only: e2 e3)
    apply simp
    done
  with e2 e3 have w2: "\<exists>r1 r2. calculate_next_review 739000 1 2.5 4 0 REVIEW = Inr r1 \<and>
      calculate_next_review 739001 (nr_next_interval r1) (nr_ease_factor r1) 3
         (nr_repetitions r1) (nr_stage r1) = Inr r2 \<and>
      nr_next_interval r1 = 1 \<and> nr_next_interval r2 = 6"
    by simp
  from w1 w2 show ?thesis by (simp add: datetime_end_def)
qed

subsection \<open>The difficulty level\<close>

text \<open>
  Claim C7. \<^verbatim>\<open>_update_difficulty_level\<close> leaves the record as it is when the review
  history has fewer than 3 entries. Otherwise, with \<open>avg\<close> the average grade of the
  last five entries (all of them when there are fewer) and \<open>d\<close> the difficulty level
  (1.0 when the key is absent): for \<open>avg \<ge> 4.5\<close> the level becomes
  \<open>max 0.5 (d - 0.1)\<close>, which is never below 0.5 and is below \<open>d\<close> when \<open>d\<close> is above
  the floor; for \<open>avg < 3\<close> it becomes \<open>min 2 (d + 0.2)\<close>, which is never above 2 and is
  above \<open>d\<close> when \<open>d\<close> is below the ceiling; for averages in between the record is
  unchanged. No other field changes.
\<close>

theorem update_difficulty_level_rule:
  assumes "h = dict_get (pr_review_history p) []"
    and "d = dict_get (pr_difficulty_level p) 1.0"
    and "recent = rev (take 5 (rev h))"
    and "avg = real_of_int (sum_list (map re_grade recent)) / real (length recent)"
  shows "(length h < 3 \<longrightarrow> update_difficulty_level p = p) \<and>
         (3 \<le> length h \<and> 4.5 \<le> avg \<longrightarrow>
            update_difficulty_level p = p\<lparr>pr_difficulty_level := Some (max 0.5 (d - 0.1))\<rparr> \<and>
            0.5 \<le> max 0.5 (d - 0.1) \<and> (0.5 \<le> d \<longrightarrow> max 0.5 (d - 0.1) \<le> d) \<and>
            (0.5 < d \<longrightarrow> max 0.5 (d - 0.1) < d)) \<and>
         (3 \<le> length h \<and> avg < 3 \<longrightarrow>
            update_difficulty_level p = p\<lparr>pr_difficulty_level := Some (min 2 (d + 0.2))\<rparr> \<and>
            min 2 (d + 0.2) \<le> 2 \<and> (d \<le> 2 \<longrightarrow> d \<le> min 2 (d + 0.2)) \<and>
            (d < 2 \<longrightarrow> d < min 2 (d + 0.2))) \<and>
         (3 \<le> length h \<and> 3 \<le> avg \<and> avg < 4.5 \<longrightarrow> update_difficulty_level p = p)"
proof -
  have a: "real_of_int (sum_list (map re_grade (drop (length h - 5) h)))
              / real (length (map re_grade (drop (length h - 5) h))) = avg"
    unfolding assms(4) assms(3) last_five by simp
  have udl: "update_difficulty_level p =
     (if length h < 3 then p
      else if avg \<ge> 4.5 then p\<lparr>pr_difficulty_level := Some (max 0.5 (d - 0.1))\<rparr>
      else if avg < 3.0 then p\<lparr>pr_difficulty_level := Some (min 2.0 (d + 0.2))\<rparr>
      else p)"
    unfolding update_difficulty_level_def Let_def assms(1)[symmetric] assms(2)[symmetric] a
    by (rule refl)
  have 1: "length h < 3 \<longrightarrow> update_difficulty_level p = p"
    unfolding udl by simp
  have 2: "3 \<le> length h \<and> 4.5 \<le> avg \<longrightarrow>
            update_difficulty_level p = p\<lparr>pr_difficulty_level := Some (max 0.5 (d - 0.1))\<rparr> \<and>
            0.5 \<le> max 0.5 (d - 0.1) \<and> (0.5 \<le> d \<longrightarrow> max 0.5 (d - 0.1) \<le> d) \<and>
            (0.5 < d \<longrightarrow> max 0.5 (d - 0.1) < d)"
    unfolding udl by simp
  have 3: "3 \<le> length h \<and> avg < 3 \<longrightarrow>
            update_difficulty_level p = p\<lparr>pr_difficulty_level := Some (min 2 (d + 0.2))\<rparr> \<and>
            min 2 (d + 0.2) \<le> 2 \<and> (d \<le> 2 \<longrightarrow> d \<le> min 2 (d + 0.2)) \<and>
            (d < 2 \<longrightarrow> d < min 2 (d + 0.2))"
    unfolding udl by simp
  have 4: "3 \<le> length h \<and> 3 \<le> avg \<and> avg < 4.5 \<longrightarrow> update_difficulty_level p = p"
    unfolding udl by simp
  from 1 2 3 4 show ?thesis by blast
qed


theorem update_difficulty_level_rule_witness:
  "update_difficulty_level
     ((initialize_item 739000 ''w1'' (Inl VOCABULARY) None)
        \<lparr>pr_review_history := Some
          [\<lparr>re_date = 739000, re_grade = 5, re_response_time = None,
            re_previous_interval = 1, re_new_interval = 1\<rparr>,
           \<lparr>re_date = 739001, re_grade = 5, re_response_time = None,
            re_previous_interval = 1, re_new_interval = 1\<rparr>]\<rparr>) =
     (initialize_item 739000 ''w1'' (Inl VOCABULARY) None)
        \<lparr>pr_review_history := Some
          [\<lparr>re_date = 739000, re_grade = 5, re_response_time = None,
            re_previous_interval = 1, re_new_interval = 1\<rparr>,
           \<lparr>re_date = 739001, re_grade = 5, re_response_time = None,
            re_previous_interval = 1, re_new_interval = 1\<rparr>]\<rparr> \<and>
   pr_difficulty_level (update_difficulty_level
     ((initialize_item 739000 ''w1'' (Inl VOCABULARY) None)
        \<lparr>pr_review_history := Some
          [\<lparr>re_date = 739000, re_grade = 5, re_response_time = None,
            re_previous_interval = 1, re_new_interval = 1\<rparr>,
           \<lparr>re_date = 739001, re_grade = 5, re_response_time = None,
            re_previous_interval = 1, re_new_interval = 1\<rparr>,
           \<lparr>re_date = 739002, re_grade = 4, re_response_time = None,
            re_previous_interval = 1, re_new_interval = 6\<rparr>]\<rparr>)) = Some 0.9 \<and>
   pr_difficulty_level (update_difficulty_level
     ((initialize_item 739000 ''w1'' (Inl VOCABULARY) None)
        \<lparr>pr_review_history := Some
          [\<lparr>re_date = 739000, re_grade = 2, re_response_time = None,
            re_previous_interval = 1, re_new_interval = 1\<rparr>,
           \<lparr>re_date = 739001, re_grade = 1, re_response_time = None,
            re_previous_interval = 1, re_new_interval = 1\<rparr>,
           \<lparr>re_date = 739002, re_grade = 2, re_response_time = None,
            re_previous_interval = 1, re_new_interval = 1\<rparr>]\<rparr>)) = Some 1.2 \<and>
   pr_difficulty_level (update_difficulty_level
     ((initialize_item 739000 ''w1'' (Inl VOCABULARY) None)
        \<lparr>pr_review_history := Some
          [\<lparr>re_date = 739000, re_grade = 4, re_response_time = None,
            re_previous_interval = 1, re_new_interval = 1\<rparr>,
           \<lparr>re_date = 739001, re_grade = 3, re_response_time = None,
            re_previous_interval = 1, re_new_interval = 1\<rparr>,
           \<lparr>re_date = 739002, re_grade = 4, re_response_time = None,
            re_previous_interval = 1, re_new_interval = 6\<rparr>]\<rparr>)) = Some 1"
proof -
  let ?e = "\<lambda>d g. \<lparr>re_date = d, re_grade = g, re_response_time = None,
            re_previous_interval = 1, re_new_interval = 1\<rparr>"
  let ?e6 = "\<lambda>d g. \<lparr>re_date = d, re_grade = g, re_response_time = None,
            re_previous_interval = 1, re_new_interval = 6\<rparr>"
  let ?p = "\<lambda>h. (initialize_item 739000 ''w1'' (Inl VOCABULARY) None)\<lparr>pr_review_history := Some h\<rparr>"
  let ?h0 = "[?e 739000 5, ?e 739001 5]"
  let ?h1 = "[?e 739000 5, ?e 739001 5, ?e6 739002 4]"
  let ?h2 = "[?e 739000 2, ?e 739001 1, ?e 739002 2]"
  let ?h3 = "[?e 739000 4, ?e 739001 3, ?e6 739002 4]"
  have 0: "update_difficulty_level (?p ?h0) = ?p ?h0"
    using update_difficulty_level_rule [of ?h0 "?p ?h0" 1 ?h0 5]
    by (simp add: initialize_item_def dict_get_def)
  have 1: "pr_difficulty_level (update_difficulty_level (?p ?h1)) = Some 0.9"
    using update_difficulty_level_rule [of ?h1 "?p ?h1" 1 ?h1 "14 / 3"]
    by (simp add: initialize_item_def dict_get_def)
  have 2: "pr_difficulty_level (update_difficulty_level (?p ?h2)) = Some 1.2"
    using update_difficulty_level_rule [of ?h2 "?p ?h2" 1 ?h2 "5 / 3"]
    by (simp add: initialize_item_def dict_get_def)
  have 3: "pr_difficulty_level (update_difficulty_level (?p ?h3)) = Some 1"
    using update_difficulty_level_rule [of ?h3 "?p ?h3" 1 ?h3 "11 / 3"]
    by (simp add: initialize_item_def dict_get_def)
  from 0 1 2 3 show ?thesis by simp
qed


section \<open>Properties of the quiz sessions\<close>

subsection \<open>Helper facts\<close>

lemma question_difficulty [simp]:
  "qq_difficulty qa_001 = EASY" "qq_difficulty qa_002 = MEDIUM" "qq_difficulty qa_003 = HARD"
  "qq_difficulty gi_001 = EASY" "qq_difficulty gi_002 = MEDIUM"
  "qq_difficulty ga_001 = EASY" "qq_difficulty ga_002 = MEDIUM"
  "qq_difficulty ec_001 = EASY" "qq_difficulty ec_002 = MEDIUM"
  by (simp_all add: qa_001_def qa_002_def qa_003_def gi_001_def gi_002_def ga_001_def
      ga_002_def ec_001_def ec_002_def)

lemma question_correct_answer [simp]:
  "qq_correct_answer qa_001 = 1" "qq_correct_answer qa_002 = 0" "qq_correct_answer qa_003 = 0"
  "qq_correct_answer gi_001 = 3" "qq_correct_answer gi_002 = 0"
  "qq_correct_answer ga_001 = 1" "qq_correct_answer ga_002 = 2"
  "qq_correct_answer ec_001 = 1" "qq_correct_answer ec_002 = 1"
  by (simp_all add: qa_001_def qa_002_def qa_003_def gi_001_def gi_002_def ga_001_def
      ga_002_def ec_001_def ec_002_def)

lemma question_category [simp]:
  "qq_category qa_001 = QUANTITATIVE_APTITUDE" "qq_category qa_002 = QUANTITATIVE_APTITUDE"
  "qq_category qa_003 = QUANTITATIVE_APTITUDE"
  "qq_category gi_001 = GENERAL_INTELLIGENCE" "qq_category gi_002 = GENERAL_INTELLIGENCE"
  "qq_category ga_001 = GENERAL_AWARENESS" "qq_category ga_002 = GENERAL_AWARENESS"
  "qq_category ec_001 = ENGLISH_COMPREHENSION" "qq_category ec_002 = ENGLISH_COMPREHENSION"
  by (simp_all add: qa_001_def qa_002_def qa_003_def gi_001_def gi_002_def ga_001_def
      ga_002_def ec_001_def ec_002_def)

lemma set_AList_update: "set (AList.update k v al) \<subseteq> insert (k, v) (set al)"
  by (induction al) auto

lemma AList_update_fresh: "k \<notin> fst ` set al \<Longrightarrow> AList.update k v al = al @ [(k, v)]"
  by (induction al) auto

lemma map_of_put_session:
  "map_of (qm_active_sessions (put_session mgr sid s)) sid' =
     (if sid' = sid then Some s else map_of (qm_active_sessions mgr) sid')"
  by (simp add: put_session_def update_conv')

lemma select_questions_returns:
  "0 \<le> count \<Longrightarrow> \<exists>qs. select_questions mgr sample category difficulty count = Inr qs"
  by (simp add: select_questions_def Let_def)

lemma category_performance_returns:
  "length questions \<le> length answers \<Longrightarrow> \<exists>perf'. category_performance questions answers perf = Inr perf'"
proof (induction questions answers perf rule: category_performance.induct)
  case (1 answers perf)
  then show ?case by simp
next
  case (2 question questions perf)
  then show ?case by simp
next
  case (3 question questions user_answer answers perf)
  then show ?case by (simp add: Let_def split: prod.splits)
qed

lemma generate_result_returns:
  assumes "qs_end_time s = Some t" and "qs_questions s \<noteq> []"
    and "length (qs_questions s) \<le> length (qs_user_answers s)"
  shows "\<exists>result. generate_result s = Inr result"
proof -
  from category_performance_returns [OF assms(3), of "[]"]
  obtain perf where "category_performance (qs_questions s) (qs_user_answers s) [] = Inr perf"
    by blast
  with assms(1,2) show ?thesis by (simp add: generate_result_def Let_def)
qed

lemma sr_fresh_update:
  "0 \<le> now \<Longrightarrow> now + 1 < datetime_end \<Longrightarrow>
   \<exists>p. update_progress now (initialize_item now item_id item_type content) grade None = Inr p"
  by (simp add: initialize_item_def update_progress_def dict_get_def dict_item_def
      LearningStage_of_def calculate_next_review_def Let_def learning_steps_def
      ease_factor_default_def datetime_add_def timedelta_days_def datetime_end_def)

lemma sr_loop_returns:
  "0 \<le> now \<Longrightarrow> now + 1 < datetime_end \<Longrightarrow> length questions \<le> length answers \<Longrightarrow>
   update_spaced_repetition_loop now questions answers = Inr ()"
proof (induction now questions answers rule: update_spaced_repetition_loop.induct)
  case (1 now answers)
  then show ?case by simp
next
  case (2 now question questions)
  then show ?case by simp
next
  case (3 now question questions user_answer answers)
  from sr_fresh_update [OF "3.prems"(1,2)]
  obtain p where "update_progress now (initialize_item now (qq_id question)
      (Inr (QuizCategory_value (qq_category question))) None)
      (if user_answer = Some (qq_correct_answer question) then 5 else 2) None = Inr p"
    by blast
  with 3 show ?case by (simp add: Let_def)
qed

lemma submit_answer_effect:
  assumes "submit_answer mgr sid answer now = (out, mgr')"
  shows "mgr' = mgr \<or>
    (\<exists>s s'. map_of (qm_active_sessions mgr) sid = Some s \<and> mgr' = put_session mgr sid s' \<and>
       qs_questions s' = qs_questions s \<and> length (qs_user_answers s') = length (qs_user_answers s) \<and>
       qs_current_question s < int (length (qs_questions s)) \<and>
       ((qs_score s' = qs_score s \<and> qs_current_question s' = qs_current_question s) \<or>
        (qs_current_question s' = qs_current_question s + 1 \<and>
         (qs_score s' = qs_score s \<or> qs_score s' = qs_score s + 1))))"
  using assms
  by (auto simp: submit_answer_def Let_def split: option.splits sum.splits if_splits)

lemma submit_answer_response_step:
  assumes "map_of (qm_active_sessions mgr) sid = Some s"
    and "submit_answer mgr sid answer now = (Response r, mgr')"
  shows "\<exists>s'. map_of (qm_active_sessions mgr') sid = Some s' \<and>
           qs_current_question s' = qs_current_question s + 1 \<and>
           (qs_score s' = qs_score s \<or> qs_score s' = qs_score s + 1) \<and>
           qs_questions s' = qs_questions s \<and>
           length (qs_user_answers s') = length (qs_user_answers s)"
  using assms
  by (auto simp: submit_answer_def Let_def map_of_put_session split: option.splits sum.splits if_splits)

lemma sessions_ok_put:
  assumes "sessions_ok mgr" and "session_invariant s"
  shows "sessions_ok (put_session mgr sid s)"
  using assms set_AList_update [of sid s "qm_active_sessions mgr"]
  by (auto simp: sessions_ok_def put_session_def)

lemma sessions_ok_create:
  assumes "sessions_ok mgr"
  shows "sessions_ok (snd (create_weekly_quiz mgr sample sid now uid cat diff n))"
proof (cases "select_questions mgr sample cat diff n")
  case (Inl e)
  with assms show ?thesis by (simp add: create_weekly_quiz_def)
next
  case (Inr qs)
  have "session_invariant \<lparr>qs_session_id = sid, qs_user_id = uid, qs_questions = qs,
      qs_current_question = 0, qs_score = 0, qs_start_time = now, qs_end_time = None,
      qs_user_answers = replicate (length qs) None, qs_time_per_question = [],
      qs_category = cat, qs_difficulty = diff\<rparr>"
    by (simp add: session_invariant_def)
  from sessions_ok_put [OF assms this, of sid] Inr show ?thesis
    by (simp add: create_weekly_quiz_def put_session_def Let_def)
qed

lemma sessions_ok_submit:
  assumes "sessions_ok mgr"
  shows "sessions_ok (snd (submit_answer mgr sid answer now))"
proof -
  obtain out mgr' where r: "submit_answer mgr sid answer now = (out, mgr')"
    by (cases "submit_answer mgr sid answer now") auto
  from submit_answer_effect [OF r] show ?thesis
  proof
    assume "mgr' = mgr"
    with assms r show ?thesis by simp
  next
    assume "\<exists>s s'. map_of (qm_active_sessions mgr) sid = Some s \<and> mgr' = put_session mgr sid s' \<and>
       qs_questions s' = qs_questions s \<and> length (qs_user_answers s') = length (qs_user_answers s) \<and>
       qs_current_question s < int (length (qs_questions s)) \<and>
       ((qs_score s' = qs_score s \<and> qs_current_question s' = qs_current_question s) \<or>
        (qs_current_question s' = qs_current_question s + 1 \<and>
         (qs_score s' = qs_score s \<or> qs_score s' = qs_score s + 1)))"
    then obtain s s' where m: "map_of (qm_active_sessions mgr) sid = Some s"
      and p: "mgr' = put_session mgr sid s'"
      and f: "qs_questions s' = qs_questions s" "length (qs_user_answers s') = length (qs_user_answers s)"
        "qs_current_question s < int (length (qs_questions s))"
        "(qs_score s' = qs_score s \<and> qs_current_question s' = qs_current_question s) \<or>
        (qs_current_question s' = qs_current_question s + 1 \<and>
         (qs_score s' = qs_score s \<or> qs_score s' = qs_score s + 1))"
      by blast
    from m have "(sid, s) \<in> set (qm_active_sessions mgr)" by (rule map_of_SomeD)
    with assms have "session_invariant s" by (auto simp: sessions_ok_def)
    with f have "session_invariant s'" by (auto simp: session_invariant_def)
    from sessions_ok_put [OF assms this] p r show ?thesis by simp
  qed
qed

lemma sessions_ok_run_call: "sessions_ok mgr \<Longrightarrow> sessions_ok (run_call mgr c)"
  by (cases c) (simp_all add: sessions_ok_create sessions_ok_submit)

lemma sessions_ok_run_calls: "sessions_ok mgr \<Longrightarrow> sessions_ok (run_calls mgr calls)"
  unfolding run_calls_def
  by (induction calls arbitrary: mgr) (simp_all add: sessions_ok_run_call)

subsection \<open>An example run\<close>

text \<open>
  User 7 starts a mixed quiz of medium difficulty with two questions; the draw takes
  the first two candidates, \<open>qa_002\<close> and \<open>gi_002\<close> (both with correct option 0). The
  first answer, 0, is right; the second, 1, is wrong and ends the quiz.
\<close>

lemma bank_medium:
  "concat (map (\<lambda>(cat, cat_questions). filter (\<lambda>q. qq_difficulty q = MEDIUM) cat_questions)
     initialize_question_bank) = [qa_002, gi_002, ga_002, ec_002]"
  by (simp add: initialize_question_bank_def)

lemma select_mixed_medium_2:
  "qm_question_bank mgr = initialize_question_bank \<Longrightarrow>
   select_questions mgr sample_prefix MIXED MEDIUM 2 = Inr [qa_002, gi_002]"
  unfolding select_questions_def Let_def
  by (simp add: bank_medium sample_prefix_def)

lemma demo_create:
  "create_weekly_quiz (QuizManager_init False True) sample_prefix ''quiz_7_a'' 739000 7 MIXED MEDIUM 2 =
     (Inr \<lparr>qs_session_id = ''quiz_7_a'', qs_user_id = 7, qs_questions = [qa_002, gi_002],
           qs_current_question = 0, qs_score = 0, qs_start_time = 739000, qs_end_time = None,
           qs_user_answers = [None, None], qs_time_per_question = [], qs_category = MIXED,
           qs_difficulty = MEDIUM\<rparr>,
      \<lparr>qm_db_manager = False, qm_spaced_repetition = True,
       qm_active_sessions = [(''quiz_7_a'',
          \<lparr>qs_session_id = ''quiz_7_a'', qs_user_id = 7, qs_questions = [qa_002, gi_002],
           qs_current_question = 0, qs_score = 0, qs_start_time = 739000, qs_end_time = None,
           qs_user_answers = [None, None], qs_time_per_question = [], qs_category = MIXED,
           qs_difficulty = MEDIUM\<rparr>)],
       qm_question_bank = initialize_question_bank\<rparr>)"
proof -
  have "select_questions (QuizManager_init False True) sample_prefix MIXED MEDIUM 2 = Inr [qa_002, gi_002]"
    by (rule select_mixed_medium_2) (simp add: QuizManager_init_def)
  then show ?thesis
    by (simp add: create_weekly_quiz_def QuizManager_init_def numeral_2_eq_2 Let_def)
qed

lemma demo_create_again:
  "create_weekly_quiz
     \<lparr>qm_db_manager = False, qm_spaced_repetition = True,
       qm_active_sessions = [(''quiz_7_a'',
          \<lparr>qs_session_id = ''quiz_7_a'', qs_user_id = 7, qs_questions = [qa_002, gi_002],
           qs_current_question = 0, qs_score = 0, qs_start_time = 739000, qs_end_time = None,
           qs_user_answers = [None, None], qs_time_per_question = [], qs_category = MIXED,
           qs_difficulty = MEDIUM\<rparr>)],
       qm_question_bank = initialize_question_bank\<rparr>
     sample_prefix ''quiz_7_b'' 739000.01 7 MIXED MEDIUM 2 =
     (Inr \<lparr>qs_session_id = ''quiz_7_b'', qs_user_id = 7, qs_questions = [qa_002, gi_002],
           qs_current_question = 0, qs_score = 0, qs_start_time = 739000.01, qs_end_time = None,
           qs_user_answers = [None, None], qs_time_per_question = [], qs_category = MIXED,
           qs_difficulty = MEDIUM\<rparr>,
      \<lparr>qm_db_manager = False, qm_spaced_repetition = True,
       qm_active_sessions = [(''quiz_7_a'',
          \<lparr>qs_session_id = ''quiz_7_a'', qs_user_id = 7, qs_questions = [qa_002, gi_002],
           qs_current_question = 0, qs_score = 0, qs_start_time = 739000, qs_end_time = None,
           qs_user_answers = [None, None], qs_time_per_question = [], qs_category = MIXED,
           qs_difficulty = MEDIUM\<rparr>),
          (''quiz_7_b'',
          \<lparr>qs_session_id = ''quiz_7_b'', qs_user_id = 7, qs_questions = [qa_002, gi_002],
           qs_current_question = 0, qs_score = 0, qs_start_time = 739000.01, qs_end_time = None,
           qs_user_answers = [None, None], qs_time_per_question = [], qs_category = MIXED,
           qs_difficulty = MEDIUM\<rparr>)],
       qm_question_bank = initialize_question_bank\<rparr>)"
proof -
  have "select_questions \<lparr>qm_db_manager = False, qm_spaced_repetition = True,
       qm_active_sessions = [(''quiz_7_a'',
          \<lparr>qs_session_id = ''quiz_7_a'', qs_user_id = 7, qs_questions = [qa_002, gi_002],
           qs_current_question = 0, qs_score = 0, qs_start_time = 739000, qs_end_time = None,
           qs_user_answers = [None, None], qs_time_per_question = [], qs_category = MIXED,
           qs_difficulty = MEDIUM\<rparr>)],
       qm_question_bank = initialize_question_bank\<rparr> sample_prefix MIXED MEDIUM 2 = Inr [qa_002, gi_002]"
    by (rule select_mixed_medium_2) simp
  then show ?thesis
    by (simp add: create_weekly_quiz_def numeral_2_eq_2 Let_def)
qed

lemma demo_submit_1:
  "submit_answer
     \<lparr>qm_db_manager = False, qm_spaced_repetition = True,
       qm_active_sessions = [(''quiz_7_a'',
          \<lparr>qs_session_id = ''quiz_7_a'', qs_user_id = 7, qs_questions = [qa_002, gi_002],
           qs_current_question = 0, qs_score = 0, qs_start_time = 739000, qs_end_time = None,
           qs_user_answers = [None, None], qs_time_per_question = [], qs_category = MIXED,
           qs_difficulty = MEDIUM\<rparr>)],
       qm_question_bank = initialize_question_bank\<rparr> ''quiz_7_a'' 0 739000.001 =
   (Response \<lparr>ar_correct = True, ar_correct_answer = 0, ar_explanation = qq_explanation qa_002,
       ar_current_score = 1, ar_questions_completed = 1, ar_total_questions = 2,
       ar_quiz_completed = False, ar_final_result = None\<rparr>,
    \<lparr>qm_db_manager = False, qm_spaced_repetition = True,
       qm_active_sessions = [(''quiz_7_a'',
          \<lparr>qs_session_id = ''quiz_7_a'', qs_user_id = 7, qs_questions = [qa_002, gi_002],
           qs_current_question = 1, qs_score = 1, qs_start_time = 739000, qs_end_time = None,
           qs_user_answers = [Some 0, None], qs_time_per_question = [86.4], qs_category = MIXED,
           qs_difficulty = MEDIUM\<rparr>)],
       qm_question_bank = initialize_question_bank\<rparr>)"
  by (simp add: submit_answer_def put_session_def py_index_def Let_def)

lemma demo_submit_2:
  "submit_answer
    \<lparr>qm_db_manager = False, qm_spaced_repetition = True,
       qm_active_sessions = [(''quiz_7_a'',
          \<lparr>qs_session_id = ''quiz_7_a'', qs_user_id = 7, qs_questions = [qa_002, gi_002],
           qs_current_question = 1, qs_score = 1, qs_start_time = 739000, qs_end_time = None,
           qs_user_answers = [Some 0, None], qs_time_per_question = [86.4], qs_category = MIXED,
           qs_difficulty = MEDIUM\<rparr>)],
       qm_question_bank = initialize_question_bank\<rparr> ''quiz_7_a'' 1 739000.002 =
   (Response \<lparr>ar_correct = False, ar_correct_answer = 0, ar_explanation = qq_explanation gi_002,
       ar_current_score = 1, ar_questions_completed = 2, ar_total_questions = 2,
       ar_quiz_completed = True,
       ar_final_result = Some \<lparr>qr_session_id = ''quiz_7_a'', qr_user_id = 7,
          qr_total_questions = 2, qr_correct_answers = 1, qr_score_percentage = 50,
          qr_time_taken = 172.8, qr_category = MIXED, qr_difficulty = MEDIUM,
          qr_weak_areas = [GENERAL_INTELLIGENCE], qr_strong_areas = [QUANTITATIVE_APTITUDE],
          qr_recommendations = [GoodProgress, TimeManagement, FocusAreas [GENERAL_INTELLIGENCE]]\<rparr>\<rparr>,
    \<lparr>qm_db_manager = False, qm_spaced_repetition = True,
       qm_active_sessions = [(''quiz_7_a'',
          \<lparr>qs_session_id = ''quiz_7_a'', qs_user_id = 7, qs_questions = [qa_002, gi_002],
           qs_current_question = 2, qs_score = 1, qs_start_time = 739000,
           qs_end_time = Some 739000.002,
           qs_user_answers = [Some 0, Some 1], qs_time_per_question = [86.4, 86.4],
           qs_category = MIXED, qs_difficulty = MEDIUM\<rparr>)],
       qm_question_bank = initialize_question_bank\<rparr>)"
  by (simp add: submit_answer_def put_session_def py_index_def Let_def generate_result_def
      generate_recommendations_def update_spaced_repetition_def dict_get_def
      sr_loop_returns datetime_end_def del: update_spaced_repetition_loop.simps)



subsection \<open>A second session for the same user\<close>

text \<open>
  Claim C2 says that \<^verbatim>\<open>create_weekly_quiz\<close>, called a second time for a user whose
  first session is still active, fails with \<open>DuplicateActiveSession\<close> and registers no
  session. The function looks at no session: in the example run a second call for
  user 7 returns a session and the active set then holds both.
\<close>

theorem create_weekly_quiz_second_session:
  "\<not> isl (fst (create_weekly_quiz
       (snd (create_weekly_quiz (QuizManager_init False True) sample_prefix ''quiz_7_a'' 739000 7
          MIXED MEDIUM 2))
       sample_prefix ''quiz_7_b'' 739000.01 7 MIXED MEDIUM 2)) \<and>
   map qs_session_id (user_sessions (snd (create_weekly_quiz
       (snd (create_weekly_quiz (QuizManager_init False True) sample_prefix ''quiz_7_a'' 739000 7
          MIXED MEDIUM 2))
       sample_prefix ''quiz_7_b'' 739000.01 7 MIXED MEDIUM 2)) 7) = [''quiz_7_a'', ''quiz_7_b'']"
  unfolding demo_create snd_conv demo_create_again
  by (simp add: user_sessions_def)

text \<open>
  Claim C2 as amended. Whatever sessions are active, \<^verbatim>\<open>create_weekly_quiz\<close> with a
  question count that is not negative returns a new session of the user, at its first
  question, and registers it under its session id; every other id keeps its session;
  and when the id is new to the active set (the source builds it from the clock and a
  fresh UUID), the session is appended to the user's sessions. The only failure is
  the ValueError of \<^verbatim>\<open>random.sample\<close> for a negative count, which registers nothing.
\<close>

theorem create_weekly_quiz_registers_every_call:
  "(0 \<le> question_count \<longrightarrow>
      (\<exists>session.
         create_weekly_quiz mgr sample session_id now user_id category difficulty question_count =
           (Inr session, put_session mgr session_id session) \<and>
         qs_user_id session = user_id \<and> qs_session_id session = session_id \<and>
         qs_current_question session = 0 \<and> qs_score session = 0 \<and>
         map_of (qm_active_sessions (put_session mgr session_id session)) session_id = Some session \<and>
         (\<forall>sid. sid \<noteq> session_id \<longrightarrow>
            map_of (qm_active_sessions (put_session mgr session_id session)) sid =
            map_of (qm_active_sessions mgr) sid) \<and>
         (session_id \<notin> fst ` set (qm_active_sessions mgr) \<longrightarrow>
            user_sessions (put_session mgr session_id session) user_id =
            user_sessions mgr user_id @ [session]))) \<and>
   (question_count < 0 \<longrightarrow>
      create_weekly_quiz mgr sample session_id now user_id category difficulty question_count =
        (Inl ValueError, mgr))"
proof (intro conjI impI)
  assume "0 \<le> question_count"
  from select_questions_returns [OF this]
  obtain qs where qs: "select_questions mgr sample category difficulty question_count = Inr qs"
    by blast
  define session where "session =
    \<lparr>qs_session_id = session_id, qs_user_id = user_id, qs_questions = qs,
     qs_current_question = 0, qs_score = 0, qs_start_time = now, qs_end_time = None,
     qs_user_answers = replicate (length qs) None, qs_time_per_question = [],
     qs_category = category, qs_difficulty = difficulty\<rparr>"
  have 1: "create_weekly_quiz mgr sample session_id now user_id category difficulty question_count =
           (Inr session, put_session mgr session_id session)"
    by (simp add: create_weekly_quiz_def qs session_def put_session_def Let_def)
  have 2: "qs_user_id session = user_id \<and> qs_session_id session = session_id \<and>
         qs_current_question session = 0 \<and> qs_score session = 0"
    by (simp add: session_def)
  have 3: "session_id \<notin> fst ` set (qm_active_sessions mgr) \<longrightarrow>
            user_sessions (put_session mgr session_id session) user_id =
            user_sessions mgr user_id @ [session]"
    using 2 by (simp add: user_sessions_def put_session_def AList_update_fresh)
  from 1 2 3 show "\<exists>session.
         create_weekly_quiz mgr sample session_id now user_id category difficulty question_count =
           (Inr session, put_session mgr session_id session) \<and>
         qs_user_id session = user_id \<and> qs_session_id session = session_id \<and>
         qs_current_question session = 0 \<and> qs_score session = 0 \<and>
         map_of (qm_active_sessions (put_session mgr session_id session)) session_id = Some session \<and>
         (\<forall>sid. sid \<noteq> session_id \<longrightarrow>
            map_of (qm_active_sessions (put_session mgr session_id session)) sid =
            map_of (qm_active_sessions mgr) sid) \<and>
         (session_id \<notin> fst ` set (qm_active_sessions mgr) \<longrightarrow>
            user_sessions (put_session mgr session_id session) user_id =
            user_sessions mgr user_id @ [session])"
    by (auto simp: map_of_put_session)
next
  assume "question_count < 0"
  then show "create_weekly_quiz mgr sample session_id now user_id category difficulty question_count =
        (Inl ValueError, mgr)"
    by (simp add: create_weekly_quiz_def select_questions_def Let_def)
qed

theorem create_weekly_quiz_registers_every_call_witness:
  "(0 :: int) \<le> 2 \<and>
   ''quiz_7_b'' \<notin> fst ` set (qm_active_sessions
       (snd (create_weekly_quiz (QuizManager_init False True) sample_prefix ''quiz_7_a'' 739000 7
          MIXED MEDIUM 2))) \<and>
   (\<exists>session.
      fst (create_weekly_quiz
        (snd (create_weekly_quiz (QuizManager_init False True) sample_prefix ''quiz_7_a'' 739000 7
           MIXED MEDIUM 2))
        sample_prefix ''quiz_7_b'' 739000.01 7 MIXED MEDIUM 2) = Inr session \<and>
      qs_user_id session = 7 \<and>
      length (user_sessions
        (snd (create_weekly_quiz (QuizManager_init False True) sample_prefix ''quiz_7_a'' 739000 7
           MIXED MEDIUM 2)) 7) = 1 \<and>
      length (user_sessions (put_session
        (snd (create_weekly_quiz (QuizManager_init False True) sample_prefix ''quiz_7_a'' 739000 7
           MIXED MEDIUM 2)) ''quiz_7_b'' session) 7) = 2) \<and>
   create_weekly_quiz (QuizManager_init False True) sample_prefix ''quiz_7_c'' 739000 7 MIXED MEDIUM (- 1) =
     (Inl ValueError, QuizManager_init False True)"
  using create_weekly_quiz_registers_every_call
    [of 2 "snd (create_weekly_quiz (QuizManager_init False True) sample_prefix ''quiz_7_a'' 739000 7
           MIXED MEDIUM 2)" sample_prefix "''quiz_7_b''" "739000.01" 7 MIXED MEDIUM]
    create_weekly_quiz_registers_every_call
    [of "- 1" "QuizManager_init False True" sample_prefix "''quiz_7_c''" 739000 7 MIXED MEDIUM]
  unfolding demo_create snd_conv demo_create_again
  by (auto simp: user_sessions_def put_session_def QuizManager_init_def)

subsection \<open>The last answer of a session\<close>

text \<open>
  Claim C6 says that \<^verbatim>\<open>submit_answer\<close> on the last unanswered question removes the
  session from the active set. In the example run the second answer ends the quiz:
  the response carries \<^verbatim>\<open>quiz_completed\<close> and the result, and the active set still
  holds the session under its id.
\<close>

theorem submit_answer_completed_session_still_active:
  "fst (submit_answer
     (run_calls (QuizManager_init False True)
        [Create sample_prefix ''quiz_7_a'' 739000 7 MIXED MEDIUM 2,
         Submit ''quiz_7_a'' 0 739000.001])
     ''quiz_7_a'' 1 739000.002) =
   Response \<lparr>ar_correct = False, ar_correct_answer = 0, ar_explanation = qq_explanation gi_002,
       ar_current_score = 1, ar_questions_completed = 2, ar_total_questions = 2,
       ar_quiz_completed = True,
       ar_final_result = Some \<lparr>qr_session_id = ''quiz_7_a'', qr_user_id = 7,
          qr_total_questions = 2, qr_correct_answers = 1, qr_score_percentage = 50,
          qr_time_taken = 172.8, qr_category = MIXED, qr_difficulty = MEDIUM,
          qr_weak_areas = [GENERAL_INTELLIGENCE], qr_strong_areas = [QUANTITATIVE_APTITUDE],
          qr_recommendations = [GoodProgress, TimeManagement, FocusAreas [GENERAL_INTELLIGENCE]]\<rparr>\<rparr> \<and>
   map fst (qm_active_sessions (snd (submit_answer
     (run_calls (QuizManager_init False True)
        [Create sample_prefix ''quiz_7_a'' 739000 7 MIXED MEDIUM 2,
         Submit ''quiz_7_a'' 0 739000.001])
     ''quiz_7_a'' 1 739000.002))) = [''quiz_7_a'']"
  unfolding run_calls_def foldl.simps run_call.simps demo_create snd_conv demo_submit_1 demo_submit_2
  by simp

text \<open>
  Claim C6 as amended. When \<^verbatim>\<open>submit_answer\<close> is called on the last unanswered
  question of a session (whose answers list is as long as its questions, with the
  clock inside the calendar), it returns the response with \<^verbatim>\<open>quiz_completed\<close> and the
  \<^verbatim>\<open>QuizResult\<close>, and the session stays in the active set, now with \<^verbatim>\<open>end_time\<close>
  stamped and \<^verbatim>\<open>current_question\<close> equal to the number of questions: a further
  \<^verbatim>\<open>submit_answer\<close> on it answers "Quiz already completed". (In the bot it is the
  caller, \<^verbatim>\<open>handle_quiz_answer\<close> of \<^verbatim>\<open>main.py\<close>, that deletes the session after such a
  response.)
\<close>

theorem submit_answer_last_question_keeps_session:
  assumes "map_of (qm_active_sessions mgr) session_id = Some session"
    and "qs_current_question session + 1 = int (length (qs_questions session))"
    and "0 \<le> qs_current_question session"
    and "length (qs_user_answers session) = length (qs_questions session)"
    and "0 \<le> now" and "now + 1 < datetime_end"
  shows "\<exists>r result session'.
           submit_answer mgr session_id answer now = (Response r, put_session mgr session_id session') \<and>
           ar_quiz_completed r \<and> ar_final_result r = Some result \<and>
           map_of (qm_active_sessions (put_session mgr session_id session')) session_id = Some session' \<and>
           qs_end_time session' = Some now \<and>
           qs_current_question session' = int (length (qs_questions session')) \<and>
           submit_answer (put_session mgr session_id session') session_id answer2 now2 =
             (ErrorResponse ''Quiz already completed'', put_session mgr session_id session')"
proof -
  define n where "n = nat (qs_current_question session)"
  have idx: "qs_current_question session = int n" "n < length (qs_questions session)"
    "n < length (qs_user_answers session)" "length (qs_questions session) = Suc n"
    using assms(2,3,4) by (auto simp: n_def)
  define s1 where "s1 = session
    \<lparr>qs_user_answers := (qs_user_answers session)[n := Some answer],
     qs_time_per_question := qs_time_per_question session @
       [if qs_time_per_question session \<noteq> []
        then (now - qs_start_time session) * 86400 - sum_list (qs_time_per_question session)
        else (now - qs_start_time session) * 86400]\<rparr>"
  define s2 where "s2 =
    (if answer = qq_correct_answer (qs_questions session ! n)
     then s1\<lparr>qs_score := qs_score s1 + 1\<rparr> else s1)
    \<lparr>qs_current_question := int n + 1, qs_end_time := Some now\<rparr>"
  have s2: "qs_end_time s2 = Some now" "qs_questions s2 = qs_questions session"
    "length (qs_user_answers s2) = length (qs_user_answers session)"
    "qs_current_question s2 = int (length (qs_questions s2))"
    using idx by (auto simp: s2_def s1_def)
  have ne: "qs_questions s2 \<noteq> []"
    using s2(2) idx(4) by auto
  have le: "length (qs_questions s2) \<le> length (qs_user_answers s2)"
    using s2(2,3) assms(4) by simp
  from generate_result_returns [OF s2(1) ne le]
  obtain result where res: "generate_result s2 = Inr result" by blast
  have sr: "update_spaced_repetition mgr now s2 = Inr ()"
    using sr_loop_returns [OF assms(5,6), of "qs_questions s2" "qs_user_answers s2"] s2 assms(4)
    by (simp add: update_spaced_repetition_def)
  have "submit_answer mgr session_id answer now =
      (Response \<lparr>ar_correct = (answer = qq_correct_answer (qs_questions session ! n)),
          ar_correct_answer = qq_correct_answer (qs_questions session ! n),
          ar_explanation = qq_explanation (qs_questions session ! n),
          ar_current_score = qs_score s2, ar_questions_completed = int n + 1,
          ar_total_questions = int (length (qs_questions session)),
          ar_quiz_completed = True, ar_final_result = Some result\<rparr>,
       put_session mgr session_id s2)"
    using assms(1) idx res sr
    by (auto simp: submit_answer_def py_index_def Let_def s2_def s1_def)
  moreover have "submit_answer (put_session mgr session_id s2) session_id answer2 now2 =
             (ErrorResponse ''Quiz already completed'', put_session mgr session_id s2)"
    using s2 by (simp add: submit_answer_def map_of_put_session Let_def)
  ultimately show ?thesis
    using s2 by (auto simp: map_of_put_session)
qed

theorem submit_answer_last_question_keeps_session_witness:
  "(\<exists>session.
      map_of (qm_active_sessions (run_calls (QuizManager_init False True)
        [Create sample_prefix ''quiz_7_a'' 739000 7 MIXED MEDIUM 2,
         Submit ''quiz_7_a'' 0 739000.001])) ''quiz_7_a'' = Some session \<and>
      qs_current_question session + 1 = int (length (qs_questions session)) \<and>
      0 \<le> qs_current_question session \<and>
      length (qs_user_answers session) = length (qs_questions session)) \<and>
   (0 :: real) \<le> 739000.002 \<and> (739000.002 :: real) + 1 < datetime_end \<and>
   (\<exists>r result session'.
      submit_answer (run_calls (QuizManager_init False True)
        [Create sample_prefix ''quiz_7_a'' 739000 7 MIXED MEDIUM 2,
         Submit ''quiz_7_a'' 0 739000.001]) ''quiz_7_a'' 1 739000.002 =
        (Response r, put_session (run_calls (QuizManager_init False True)
          [Create sample_prefix ''quiz_7_a'' 739000 7 MIXED MEDIUM 2,
           Submit ''quiz_7_a'' 0 739000.001]) ''quiz_7_a'' session') \<and>
      ar_quiz_completed r \<and> ar_final_result r = Some result \<and>
      qs_end_time session' = Some 739000.002 \<and> qs_current_question session' = 2)"
proof -
  let ?s = "\<lparr>qs_session_id = ''quiz_7_a'', qs_user_id = 7, qs_questions = [qa_002, gi_002],
           qs_current_question = 1, qs_score = 1, qs_start_time = 739000, qs_end_time = None,
           qs_user_answers = [Some 0, None], qs_time_per_question = [86.4], qs_category = MIXED,
           qs_difficulty = MEDIUM\<rparr>"
  let ?m = "run_calls (QuizManager_init False True)
        [Create sample_prefix ''quiz_7_a'' 739000 7 MIXED MEDIUM 2,
         Submit ''quiz_7_a'' 0 739000.001]"
  have m: "map_of (qm_active_sessions ?m) ''quiz_7_a'' = Some ?s"
    unfolding run_calls_def foldl.simps run_call.simps demo_create snd_conv demo_submit_1
    by simp
  have "\<exists>r result session'.
      submit_answer ?m ''quiz_7_a'' 1 739000.002 = (Response r, put_session ?m ''quiz_7_a'' session') \<and>
      ar_quiz_completed r \<and> ar_final_result r = Some result \<and>
      map_of (qm_active_sessions (put_session ?m ''quiz_7_a'' session')) ''quiz_7_a'' = Some session' \<and>
      qs_end_time session' = Some 739000.002 \<and>
      qs_current_question session' = int (length (qs_questions session')) \<and>
      submit_answer (put_session ?m ''quiz_7_a'' session') ''quiz_7_a'' 0 739000.003 =
        (ErrorResponse ''Quiz already completed'', put_session ?m ''quiz_7_a'' session')"
    by (rule submit_answer_last_question_keeps_session [OF m]) (simp_all add: datetime_end_def)
  then obtain r result session' where
    "submit_answer ?m ''quiz_7_a'' 1 739000.002 = (Response r, put_session ?m ''quiz_7_a'' session')"
    "ar_quiz_completed r" "ar_final_result r = Some result"
    "qs_end_time session' = Some 739000.002"
    "qs_current_question session' = int (length (qs_questions session'))"
    by blast
  moreover from this(1) have "qs_questions session' = [qa_002, gi_002]"
    unfolding run_calls_def foldl.simps run_call.simps demo_create snd_conv demo_submit_1 demo_submit_2
    by (auto simp: put_session_def)
  ultimately have "\<exists>r result session'.
      submit_answer ?m ''quiz_7_a'' 1 739000.002 = (Response r, put_session ?m ''quiz_7_a'' session') \<and>
      ar_quiz_completed r \<and> ar_final_result r = Some result \<and>
      qs_end_time session' = Some 739000.002 \<and> qs_current_question session' = 2"
    by auto
  moreover have "\<exists>session. map_of (qm_active_sessions ?m) ''quiz_7_a'' = Some session \<and>
      qs_current_question session + 1 = int (length (qs_questions session)) \<and>
      0 \<le> qs_current_question session \<and>
      length (qs_user_answers session) = length (qs_questions session)"
    using m by simp
  ultimately show ?thesis by (simp add: datetime_end_def)
qed

subsection \<open>The bounds of a session\<close>

text \<open>
  Claim C9. After any sequence of \<^verbatim>\<open>create_weekly_quiz\<close> and \<^verbatim>\<open>submit_answer\<close> calls
  on a new manager, every session of the active set has
  \<open>0 \<le> score \<le> current_question \<le> len(questions)\<close> and as many answer slots as
  questions. And every \<^verbatim>\<open>submit_answer\<close> call that returns a response without
  \<^verbatim>\<open>error\<close>, on any manager, advances \<open>current_question\<close> by exactly 1 and the score
  by 0 or 1, and leaves the questions and the number of answer slots as they were.
\<close>

theorem quiz_session_invariant:
  "(\<forall>(sid, s) \<in> set (qm_active_sessions (run_calls (QuizManager_init db sr) calls)).
      0 \<le> qs_score s \<and> qs_score s \<le> qs_current_question s \<and>
      qs_current_question s \<le> int (length (qs_questions s)) \<and>
      length (qs_user_answers s) = length (qs_questions s)) \<and>
   (map_of (qm_active_sessions mgr) session_id = Some session \<and>
    submit_answer mgr session_id answer now = (Response r, mgr') \<longrightarrow>
      (\<exists>session'. map_of (qm_active_sessions mgr') session_id = Some session' \<and>
         qs_current_question session' = qs_current_question session + 1 \<and>
         (qs_score session' = qs_score session \<or> qs_score session' = qs_score session + 1) \<and>
         qs_questions session' = qs_questions session \<and>
         length (qs_user_answers session') = length (qs_user_answers session)))"
proof
  have "sessions_ok (QuizManager_init db sr)"
    by (simp add: sessions_ok_def QuizManager_init_def)
  from sessions_ok_run_calls [OF this, of calls]
  show "\<forall>(sid, s) \<in> set (qm_active_sessions (run_calls (QuizManager_init db sr) calls)).
      0 \<le> qs_score s \<and> qs_score s \<le> qs_current_question s \<and>
      qs_current_question s \<le> int (length (qs_questions s)) \<and>
      length (qs_user_answers s) = length (qs_questions s)"
    by (simp add: sessions_ok_def session_invariant_def)
next
  show "map_of (qm_active_sessions mgr) session_id = Some session \<and>
    submit_answer mgr session_id answer now = (Response r, mgr') \<longrightarrow>
      (\<exists>session'. map_of (qm_active_sessions mgr') session_id = Some session' \<and>
         qs_current_question session' = qs_current_question session + 1 \<and>
         (qs_score session' = qs_score session \<or> qs_score session' = qs_score session + 1) \<and>
         qs_questions session' = qs_questions session \<and>
         length (qs_user_answers session') = length (qs_user_answers session))"
    using submit_answer_response_step by blast
qed

theorem quiz_session_invariant_witness:
  "map (\<lambda>(sid, s). (sid, qs_score s, qs_current_question s, length (qs_questions s),
          length (qs_user_answers s)))
     (qm_active_sessions (run_calls (QuizManager_init False True)
        [Create sample_prefix ''quiz_7_a'' 739000 7 MIXED MEDIUM 2,
         Submit ''quiz_7_a'' 0 739000.001,
         Submit ''quiz_7_a'' 1 739000.002])) = [(''quiz_7_a'', 1, 2, 2, 2)] \<and>
   (\<exists>session r mgr'.
      map_of (qm_active_sessions (run_calls (QuizManager_init False True)
        [Create sample_prefix ''quiz_7_a'' 739000 7 MIXED MEDIUM 2])) ''quiz_7_a'' = Some session \<and>
      submit_answer (run_calls (QuizManager_init False True)
        [Create sample_prefix ''quiz_7_a'' 739000 7 MIXED MEDIUM 2]) ''quiz_7_a'' 0 739000.001 =
        (Response r, mgr') \<and>
      (\<exists>session'. map_of (qm_active_sessions mgr') ''quiz_7_a'' = Some session' \<and>
         qs_current_question session' = qs_current_question session + 1 \<and>
         qs_score session' = qs_score session + 1))"
  using quiz_session_invariant [of False True
      "[Create sample_prefix ''quiz_7_a'' 739000 7 MIXED MEDIUM 2,
        Submit ''quiz_7_a'' 0 739000.001, Submit ''quiz_7_a'' 1 739000.002]"]
  unfolding run_calls_def foldl.simps run_call.simps demo_create snd_conv demo_submit_1 demo_submit_2
  by simp

subsection \<open>The two error returns\<close>

text \<open>
  Claim C10. \<^verbatim>\<open>submit_answer\<close> with a session id that is not in the active set, or on
  a session whose \<open>current_question\<close> equals (or exceeds) the number of its questions,
  returns the error dict and the manager it is given: the active set and every field
  of every session are as before.
\<close>

theorem submit_answer_error_no_change:
  "(map_of (qm_active_sessions mgr) session_id = None \<longrightarrow>
      submit_answer mgr session_id answer now = (ErrorResponse ''Session not found'', mgr)) \<and>
   (map_of (qm_active_sessions mgr) session_id = Some session \<and>
    qs_current_question session \<ge> int (length (qs_questions session)) \<longrightarrow>
      submit_answer mgr session_id answer now = (ErrorResponse ''Quiz already completed'', mgr))"
  by (simp add: submit_answer_def Let_def)

theorem submit_answer_error_no_change_witness:
  "map_of (qm_active_sessions (QuizManager_init False True)) ''quiz_0'' = None \<and>
   submit_answer (QuizManager_init False True) ''quiz_0'' 1 739000 =
     (ErrorResponse ''Session not found'', QuizManager_init False True) \<and>
   (\<exists>session.
      map_of (qm_active_sessions (run_calls (QuizManager_init False True)
        [Create sample_prefix ''quiz_7_a'' 739000 7 MIXED MEDIUM 2,
         Submit ''quiz_7_a'' 0 739000.001,
         Submit ''quiz_7_a'' 1 739000.002])) ''quiz_7_a'' = Some session \<and>
      qs_current_question session = int (length (qs_questions session))) \<and>
   submit_answer (run_calls (QuizManager_init False True)
        [Create sample_prefix ''quiz_7_a'' 739000 7 MIXED MEDIUM 2,
         Submit ''quiz_7_a'' 0 739000.001,
         Submit ''quiz_7_a'' 1 739000.002]) ''quiz_7_a'' 0 739000.003 =
     (ErrorResponse ''Quiz already completed'',
      run_calls (QuizManager_init False True)
        [Create sample_prefix ''quiz_7_a'' 739000 7 MIXED MEDIUM 2,
         Submit ''quiz_7_a'' 0 739000.001,
         Submit ''quiz_7_a'' 1 739000.002])"
  using submit_answer_error_no_change
      [of "QuizManager_init False True" "''quiz_0''" 1 739000]
    submit_answer_error_no_change
      [of "run_calls (QuizManager_init False True)
        [Create sample_prefix ''quiz_7_a'' 739000 7 MIXED MEDIUM 2,
         Submit ''quiz_7_a'' 0 739000.001,
         Submit ''quiz_7_a'' 1 739000.002]" "''quiz_7_a''" 0 "739000.003"
        "\<lparr>qs_session_id = ''quiz_7_a'', qs_user_id = 7, qs_questions = [qa_002, gi_002],
           qs_current_question = 2, qs_score = 1, qs_start_time = 739000,
           qs_end_time = Some 739000.002,
           qs_user_answers = [Some 0, Some 1], qs_time_per_question = [86.4, 86.4],
           qs_category = MIXED, qs_difficulty = MEDIUM\<rparr>"]
  unfolding run_calls_def foldl.simps run_call.simps demo_create snd_conv demo_submit_1 demo_submit_2
  by (simp add: QuizManager_init_def)


section \<open>Properties of the due-item selection\<close>

subsection \<open>Helper facts\<close>

lemma py_slice_to_prefix: "prefix (py_slice_to xs m) xs"
  by (simp add: py_slice_to_def take_is_prefix)

lemma py_slice_to_length: "0 \<le> m \<Longrightarrow> length (py_slice_to xs m) \<le> nat m"
  by (simp add: py_slice_to_def)

lemma stable_descending_sorted:
  "sorted_wrt (\<lambda>a b. f a \<ge> f b) (rev (sort_key f (rev xs)))"
proof -
  have "sorted (map f (sort_key f (rev xs)))" by (rule sorted_sort_key)
  then have "sorted_wrt (\<lambda>x y. f x \<le> f y) (sort_key f (rev xs))" by (simp add: sorted_map)
  then show ?thesis by (simp add: sorted_wrt_rev)
qed

lemma stable_descending_ties:
  "filter (\<lambda>y. f y = k) (rev (sort_key f (rev xs))) = filter (\<lambda>y. f y = k) xs"
proof -
  have "filter (\<lambda>y. f y = k) (rev (sort_key f (rev xs))) =
        rev (filter (\<lambda>y. f y = k) (sort_key f (rev xs)))"
    by (simp add: rev_filter)
  also have "\<dots> = rev (filter (\<lambda>y. f y = k) (rev xs))"
    by (simp only: sort_key_stable)
  also have "\<dots> = filter (\<lambda>y. f y = k) xs"
    by (simp add: rev_filter)
  finally show ?thesis .
qed

lemma stable_descending_set: "set (rev (sort_key f (rev xs))) = set xs"
  by simp

lemma due_items_loop_origin:
  "due_items_loop item_types now user_progress = Inr due_items \<Longrightarrow> item \<in> set due_items \<Longrightarrow>
   \<exists>(item_id, progress) \<in> set user_progress.
      ri_item_id item = item_id \<and> \<not> type_filtered_out item_types progress \<and>
      dict_get (pr_next_review_date progress) now \<le> now \<and>
      make_review_item now item_id progress = Inr item"
proof (induction item_types now user_progress arbitrary: due_items rule: due_items_loop.induct)
  case (1 item_types current_time)
  then show ?case by simp
next
  case (2 item_types current_time item_id progress rest)
  show ?case
  proof (cases "type_filtered_out item_types progress \<or>
      \<not> dict_get (pr_next_review_date progress) current_time \<le> current_time")
    case True
    with 2 show ?thesis by (auto split: if_splits)
  next
    case False
    with "2.prems"(1) obtain review_item rest_items where
      m: "make_review_item current_time item_id progress = Inr review_item"
      and r: "due_items_loop item_types current_time rest = Inr rest_items"
      and d: "due_items = review_item # rest_items"
      by (auto split: sum.splits)
    have id: "ri_item_id review_item = item_id"
      using m by (auto simp: make_review_item_def Let_def split: sum.splits)
    from "2.prems"(2) d consider "item = review_item" | "item \<in> set rest_items" by auto
    then show ?thesis
    proof cases
      case 1
      with False m id show ?thesis by auto
    next
      case 2
      from "2.IH"(2) [OF _ _ m r 2] False show ?thesis by auto
    qed
  qed
qed

lemma make_review_item_clock:
  assumes "\<lfloor>now1 - dict_get (pr_next_review_date progress) now1\<rfloor> =
           \<lfloor>now2 - dict_get (pr_next_review_date progress) now2\<rfloor>"
  shows "make_review_item now1 item_id progress = make_review_item now2 item_id progress"
  unfolding make_review_item_def calculate_priority_def Let_def assms
  by (rule refl)

lemma due_items_loop_clock:
  assumes "\<forall>(item_id, progress) \<in> set user_progress.
      (dict_get (pr_next_review_date progress) now1 \<le> now1 \<longleftrightarrow>
       dict_get (pr_next_review_date progress) now2 \<le> now2) \<and>
      (dict_get (pr_next_review_date progress) now1 \<le> now1 \<longrightarrow>
       \<lfloor>now1 - dict_get (pr_next_review_date progress) now1\<rfloor> =
       \<lfloor>now2 - dict_get (pr_next_review_date progress) now2\<rfloor>)"
  shows "due_items_loop item_types now1 user_progress = due_items_loop item_types now2 user_progress"
  using assms
proof (induction user_progress)
  case Nil
  then show ?case by simp
next
  case (Cons entry rest)
  obtain item_id progress where e: "entry = (item_id, progress)" by (cases entry) auto
  from Cons.prems e have
    d: "dict_get (pr_next_review_date progress) now1 \<le> now1 \<longleftrightarrow>
        dict_get (pr_next_review_date progress) now2 \<le> now2"
    and f: "dict_get (pr_next_review_date progress) now1 \<le> now1 \<Longrightarrow>
            \<lfloor>now1 - dict_get (pr_next_review_date progress) now1\<rfloor> =
            \<lfloor>now2 - dict_get (pr_next_review_date progress) now2\<rfloor>"
    by auto
  from Cons have r: "due_items_loop item_types now1 rest = due_items_loop item_types now2 rest"
    by simp
  show ?case
  proof (cases "dict_get (pr_next_review_date progress) now1 \<le> now1")
    case True
    show ?thesis
      unfolding e due_items_loop.simps d r make_review_item_clock [OF f [OF True], of item_id]
      by (rule refl)
  next
    case False
    with d have "\<not> dict_get (pr_next_review_date progress) now2 \<le> now2" by simp
    with False r show ?thesis unfolding e by simp
  qed
qed

subsection \<open>What a returned list looks like\<close>

text \<open>
  When \<^verbatim>\<open>get_due_items\<close> returns: at most 50 items when \<open>max_items\<close> is not given and
  at most \<open>max_items\<close> when it is 1 or more; every item comes from a record of the map
  whose review date (the clock itself when the key is absent) is not after the clock;
  the items are in non-increasing priority; and the items of any one priority are a
  prefix of the due items of that priority in iteration order.
\<close>

lemma get_due_items_properties:
  assumes "get_due_items now user_progress max_items item_types = Inr items"
  shows "(max_items = None \<longrightarrow> length items \<le> 50)"
    and "(\<forall>m. max_items = Some m \<and> 1 \<le> m \<longrightarrow> int (length items) \<le> m)"
    and "\<forall>item \<in> set items. \<exists>(item_id, progress) \<in> set user_progress.
           ri_item_id item = item_id \<and> dict_get (pr_next_review_date progress) now \<le> now"
    and "sorted_wrt (\<lambda>a b. ri_priority a \<ge> ri_priority b) items"
    and "\<exists>due_items. due_items_loop item_types now user_progress = Inr due_items \<and>
           (\<forall>k. prefix (filter (\<lambda>x. ri_priority x = k) items)
                        (filter (\<lambda>x. ri_priority x = k) due_items))"
proof -
  define cap where "cap = (case max_items of None \<Rightarrow> max_daily_reviews
     | Some m \<Rightarrow> if m = 0 then max_daily_reviews else m)"
  from assms obtain due_items where
    loop: "due_items_loop item_types now user_progress = Inr due_items"
    and items: "items = py_slice_to (rev (sort_key ri_priority (rev due_items))) cap"
    by (auto simp: get_due_items_def cap_def Let_def split: sum.splits)
  have pre: "prefix items (rev (sort_key ri_priority (rev due_items)))"
    unfolding items by (rule py_slice_to_prefix)
  show "max_items = None \<longrightarrow> length items \<le> 50"
    using py_slice_to_length [of cap "rev (sort_key ri_priority (rev due_items))"]
    by (auto simp: items cap_def max_daily_reviews_def)
  show "\<forall>m. max_items = Some m \<and> 1 \<le> m \<longrightarrow> int (length items) \<le> m"
    using py_slice_to_length [of cap "rev (sort_key ri_priority (rev due_items))"]
    by (auto simp: items cap_def)
  have sub: "set items \<subseteq> set due_items"
    using set_mono_prefix [OF pre] by simp
  show "\<forall>item \<in> set items. \<exists>(item_id, progress) \<in> set user_progress.
           ri_item_id item = item_id \<and> dict_get (pr_next_review_date progress) now \<le> now"
  proof
    fix item assume "item \<in> set items"
    with sub have "item \<in> set due_items" by auto
    from due_items_loop_origin [OF loop this]
    show "\<exists>(item_id, progress) \<in> set user_progress.
           ri_item_id item = item_id \<and> dict_get (pr_next_review_date progress) now \<le> now"
      by auto
  qed
  show "sorted_wrt (\<lambda>a b. ri_priority a \<ge> ri_priority b) items"
    unfolding items py_slice_to_def
    by (simp add: sorted_wrt_take stable_descending_sorted)
  have "prefix (filter (\<lambda>x. ri_priority x = k) items)
               (filter (\<lambda>x. ri_priority x = k) due_items)" for k
    using filter_mono_prefix [OF pre, of "\<lambda>x. ri_priority x = k"]
    by (simp only: stable_descending_ties)
  with loop show "\<exists>due_items. due_items_loop item_types now user_progress = Inr due_items \<and>
           (\<forall>k. prefix (filter (\<lambda>x. ri_priority x = k) items)
                        (filter (\<lambda>x. ri_priority x = k) due_items))"
    by blast
qed

subsection \<open>The bound \<open>max_items = 0\<close>\<close>

text \<open>
  Claim C5 says that \<^verbatim>\<open>get_due_items\<close> returns at most \<open>max_items\<close> entries for every
  bound, all of them due and in stable non-increasing priority order. For the bound 0
  the source's \<^verbatim>\<open>max_items or self.max_daily_reviews\<close> takes the default cap of 50
  instead: with two due records and \<open>max_items = 0\<close> the call returns both (in the
  order the claim states). For every bound of 1 or more, and without a bound, the
  claim holds (\<open>get_due_items_properties\<close>).
\<close>

theorem get_due_items_zero_max_items:
  "get_due_items 739000
     [(''a'', initialize_item 738990 ''a'' (Inl IDIOM) None),
      (''b'', initialize_item 738995 ''b'' (Inl GRAMMAR) None)]
     (Some 0) None =
   Inr [\<lparr>ri_item_id = ''a'', ri_item_type = IDIOM, ri_content = [], ri_stage = NEW,
         ri_priority = 10.5, ri_days_overdue = 10, ri_difficulty_score = 1\<rparr>,
        \<lparr>ri_item_id = ''b'', ri_item_type = GRAMMAR, ri_content = [], ri_stage = NEW,
         ri_priority = 5.5, ri_days_overdue = 5, ri_difficulty_score = 1\<rparr>]"
  by (simp add: get_due_items_def type_filtered_out_def make_review_item_def
      calculate_priority_def calculate_difficulty_score_def initialize_item_def dict_get_def
      LearningStage_of_def ItemType_of_def ease_factor_default_def max_daily_reviews_def
      py_slice_to_def Let_def)

subsection \<open>Calling twice\<close>

text \<open>
  Claim C8 says that two calls of \<^verbatim>\<open>get_due_items\<close> on the same progress map, with the
  same \<open>max_items\<close> and item-type filter and no update of a record in between, return
  identical ordered output. Each call reads the clock, and what it returns depends on
  the reading: a record whose next review date lies between the two readings is
  missing from the first list and present in the second.
\<close>

theorem get_due_items_clock_dependent:
  "get_due_items 739000
     [(''c'', initialize_item 739000.75 ''c'' (Inl VOCABULARY) None)] None None = Inr [] \<and>
   get_due_items 739001
     [(''c'', initialize_item 739000.75 ''c'' (Inl VOCABULARY) None)] None None =
   Inr [\<lparr>ri_item_id = ''c'', ri_item_type = VOCABULARY, ri_content = [], ri_stage = NEW,
         ri_priority = 0.5, ri_days_overdue = 0, ri_difficulty_score = 1\<rparr>] \<and>
   get_due_items 739000
     [(''c'', initialize_item 739000.75 ''c'' (Inl VOCABULARY) None)] None None \<noteq>
   get_due_items 739001
     [(''c'', initialize_item 739000.75 ''c'' (Inl VOCABULARY) None)] None None"
  by (simp add: get_due_items_def type_filtered_out_def make_review_item_def
      calculate_priority_def calculate_difficulty_score_def initialize_item_def dict_get_def
      LearningStage_of_def ItemType_of_def ease_factor_default_def max_daily_reviews_def
      py_slice_to_def Let_def)

text \<open>
  Claim C8 as amended. Two calls of \<^verbatim>\<open>get_due_items\<close> on the same progress map with the
  same \<open>max_items\<close> and item-type filter return the same ordered list (or raise the
  same exception) whenever their two clock readings agree on every record: the record
  is due at both readings or at neither, with the same whole number of days overdue
  when it is due. Two calls that read the same clock are the case \<open>now1 = now2\<close>.
\<close>

theorem get_due_items_idempotent:
  assumes "\<forall>(item_id, progress) \<in> set user_progress.
      (dict_get (pr_next_review_date progress) now1 \<le> now1 \<longleftrightarrow>
       dict_get (pr_next_review_date progress) now2 \<le> now2) \<and>
      (dict_get (pr_next_review_date progress) now1 \<le> now1 \<longrightarrow>
       \<lfloor>now1 - dict_get (pr_next_review_date progress) now1\<rfloor> =
       \<lfloor>now2 - dict_get (pr_next_review_date progress) now2\<rfloor>)"
  shows "get_due_items now1 user_progress max_items item_types =
         get_due_items now2 user_progress max_items item_types"
  unfolding get_due_items_def due_items_loop_clock [OF assms] ..

theorem get_due_items_idempotent_witness:
  "list_all (\<lambda>(item_id, progress).
      (dict_get (pr_next_review_date progress) 739000 \<le> 739000 \<longleftrightarrow>
       dict_get (pr_next_review_date progress) 739000.5 \<le> 739000.5) \<and>
      (dict_get (pr_next_review_date progress) 739000 \<le> 739000 \<longrightarrow>
       \<lfloor>739000 - dict_get (pr_next_review_date progress) 739000\<rfloor> =
       \<lfloor>739000.5 - dict_get (pr_next_review_date progress) 739000.5\<rfloor>))
     [(''a'', initialize_item 738990 ''a'' (Inl IDIOM) None),
      (''b'', (initialize_item 738995 ''b'' (Inl GRAMMAR) None)\<lparr>pr_next_review_date := None\<rparr>),
      (''c'', initialize_item 739000.75 ''c'' (Inl VOCABULARY) None)] \<and>
   get_due_items 739000
     [(''a'', initialize_item 738990 ''a'' (Inl IDIOM) None),
      (''b'', (initialize_item 738995 ''b'' (Inl GRAMMAR) None)\<lparr>pr_next_review_date := None\<rparr>),
      (''c'', initialize_item 739000.75 ''c'' (Inl VOCABULARY) None)]
     (Some 2) None =
   get_due_items 739000.5
     [(''a'', initialize_item 738990 ''a'' (Inl IDIOM) None),
      (''b'', (initialize_item 738995 ''b'' (Inl GRAMMAR) None)\<lparr>pr_next_review_date := None\<rparr>),
      (''c'', initialize_item 739000.75 ''c'' (Inl VOCABULARY) None)]
     (Some 2) None \<and>
   get_due_items 739000
     [(''a'', initialize_item 738990 ''a'' (Inl IDIOM) None),
      (''b'', (initialize_item 738995 ''b'' (Inl GRAMMAR) None)\<lparr>pr_next_review_date := None\<rparr>),
      (''c'', initialize_item 739000.75 ''c'' (Inl VOCABULARY) None)]
     (Some 2) None =
   Inr [\<lparr>ri_item_id = ''a'', ri_item_type = IDIOM, ri_content = [], ri_stage = NEW,
         ri_priority = 10.5, ri_days_overdue = 10, ri_difficulty_score = 1\<rparr>,
        \<lparr>ri_item_id = ''b'', ri_item_type = GRAMMAR, ri_content = [], ri_stage = NEW,
         ri_priority = 0.5, ri_days_overdue = 0, ri_difficulty_score = 1\<rparr>]"
  using get_due_items_idempotent [of
     "[(''a'', initialize_item 738990 ''a'' (Inl IDIOM) None),
      (''b'', (initialize_item 738995 ''b'' (Inl GRAMMAR) None)\<lparr>pr_next_review_date := None\<rparr>),
      (''c'', initialize_item 739000.75 ''c'' (Inl VOCABULARY) None)]" 739000 "739000.5" "Some 2" None]
  by (simp add: get_due_items_def type_filtered_out_def make_review_item_def
      calculate_priority_def calculate_difficulty_score_def initialize_item_def dict_get_def
      LearningStage_of_def ItemType_of_def ease_factor_default_def max_daily_reviews_def
      py_slice_to_def Let_def)


end
